theory Spec2Isabelle
  imports Complex_Main "HOL-Library.Multiset"
begin

section \<open>Text primitives\<close>

text \<open>
  Python strings are modelled as \<^typ>\<open>string\<close>. The character classes are those of Python
  on ASCII text: \<^verbatim>\<open>\s\<close> and \<^verbatim>\<open>str.strip\<close> use the whitespace characters
  (tab, line feed, vertical tab, form feed, carriage return, the four separators
  0x1C..0x1F and space), \<^verbatim>\<open>\d\<close> the ten decimal digits, and the cased characters
  are the 52 Latin letters. Characters outside ASCII belong to no class: the model agrees
  with the source on ASCII text. On other text Python knows more whitespace (U+0085,
  U+00A0 and the Unicode spaces), more digits and more cased characters, so
  \<^verbatim>\<open>str.lower\<close>, \<^verbatim>\<open>str.isupper\<close>, \<^verbatim>\<open>str.strip\<close>, \<^verbatim>\<open>str.split\<close> and the
  classes \<^verbatim>\<open>\s\<close> and \<^verbatim>\<open>\d\<close> can differ from the definitions below.
\<close>

definition ws_chars :: "char list" where
  "ws_chars = [CHR 0x09, CHR 0x0A, CHR 0x0B, CHR 0x0C, CHR 0x0D,
               CHR 0x1C, CHR 0x1D, CHR 0x1E, CHR 0x1F, CHR '' '']"

definition is_space :: "char \<Rightarrow> bool" where
  "is_space c = (c \<in> set ws_chars)"

definition is_digit :: "char \<Rightarrow> bool" where
  "is_digit c = (c \<in> set ''0123456789'')"

definition upper_chars :: "char list" where
  "upper_chars = ''ABCDEFGHIJKLMNOPQRSTUVWXYZ''"

definition lower_chars :: "char list" where
  "lower_chars = ''abcdefghijklmnopqrstuvwxyz''"

definition is_upper :: "char \<Rightarrow> bool" where
  "is_upper c = (c \<in> set upper_chars)"

definition is_lower :: "char \<Rightarrow> bool" where
  "is_lower c = (c \<in> set lower_chars)"

text \<open>\<^verbatim>\<open>str.lower\<close>, character by character.\<close>

definition lower_char :: "char \<Rightarrow> char" where
  "lower_char c = (case map_of (zip upper_chars lower_chars) c of Some l \<Rightarrow> l | None \<Rightarrow> c)"

definition lower :: "string \<Rightarrow> string" where
  "lower s = map lower_char s"

text \<open>\<^verbatim>\<open>str.isupper\<close>: at least one cased character, and no lowercase one.\<close>

definition isupper :: "string \<Rightarrow> bool" where
  "isupper s = (list_ex is_upper s \<and> \<not> list_ex is_lower s)"

text \<open>\<^verbatim>\<open>str.strip()\<close>.\<close>

definition strip :: "string \<Rightarrow> string" where
  "strip s = rev (dropWhile is_space (rev (dropWhile is_space s)))"

text \<open>\<^verbatim>\<open>str.endswith\<close> for a one-character suffix.\<close>

definition endswith_char :: "string \<Rightarrow> char \<Rightarrow> bool" where
  "endswith_char s c = (s \<noteq> [] \<and> last s = c)"

text \<open>\<^verbatim>\<open>str.split()\<close> with no argument: the maximal runs of non-whitespace.\<close>

fun split_acc :: "string \<Rightarrow> string \<Rightarrow> string list" where
  "split_acc cur [] = (if cur = [] then [] else [rev cur])"
| "split_acc cur (c # cs) =
     (if is_space c then (if cur = [] then split_acc [] cs else rev cur # split_acc [] cs)
      else split_acc (c # cur) cs)"

definition split_ws :: "string \<Rightarrow> string list" where
  "split_ws s = split_acc [] s"

text \<open>\<^verbatim>\<open>" ".join(parts)\<close>.\<close>

fun join_sp :: "string list \<Rightarrow> string" where
  "join_sp [] = []"
| "join_sp [x] = x"
| "join_sp (x # y # ys) = x @ '' '' @ join_sp (y # ys)"

text \<open>\<^verbatim>\<open>needle in haystack\<close> on strings.\<close>

fun is_prefix :: "string \<Rightarrow> string \<Rightarrow> bool" where
  "is_prefix [] ys = True"
| "is_prefix (x # xs) [] = False"
| "is_prefix (x # xs) (y # ys) = (x = y \<and> is_prefix xs ys)"

fun contains :: "string \<Rightarrow> string \<Rightarrow> bool" where
  "contains needle [] = (needle = [])"
| "contains needle (y # ys) = (is_prefix needle (y # ys) \<or> contains needle ys)"

text \<open>\<^verbatim>\<open>re.sub(r'\s+', ' ', text)\<close>: every maximal whitespace run becomes one space.\<close>

fun collapse_run :: "bool \<Rightarrow> string \<Rightarrow> string" where
  "collapse_run in_run [] = []"
| "collapse_run in_run (c # cs) =
     (if is_space c then (if in_run then collapse_run True cs else CHR '' '' # collapse_run True cs)
      else c # collapse_run False cs)"

definition collapse_ws :: "string \<Rightarrow> string" where
  "collapse_ws s = collapse_run False s"

text \<open>
  \<^verbatim>\<open>clean_text\<close> (identical in ext2.py and ext3.py): \<^verbatim>\<open>itertools.groupby\<close> keeps one
  character of every run of equal adjacent characters, then whitespace is normalised
  and the ends are stripped.
\<close>

definition clean_text :: "string \<Rightarrow> string" where
  "clean_text text = strip (collapse_ws (remdups_adj text))"

section \<open>Regular expressions\<close>

text \<open>
  The patterns of the source use only character classes, concatenation, alternation,
  optional groups and repetition, so a pattern is a value of the datatype below, matched by
  Brzozowski derivatives. For these patterns a backtracking search finds a match exactly
  when one exists.
\<close>

datatype rx = Zero | Eps | Cls "char \<Rightarrow> bool" | Seq rx rx | Alt rx rx | Star rx

fun nullable :: "rx \<Rightarrow> bool" where
  "nullable Zero = False"
| "nullable Eps = True"
| "nullable (Cls p) = False"
| "nullable (Seq a b) = (nullable a \<and> nullable b)"
| "nullable (Alt a b) = (nullable a \<or> nullable b)"
| "nullable (Star a) = True"

fun deriv :: "char \<Rightarrow> rx \<Rightarrow> rx" where
  "deriv c Zero = Zero"
| "deriv c Eps = Zero"
| "deriv c (Cls p) = (if p c then Eps else Zero)"
| "deriv c (Seq a b) =
     (if nullable a then Alt (Seq (deriv c a) b) (deriv c b) else Seq (deriv c a) b)"
| "deriv c (Alt a b) = Alt (deriv c a) (deriv c b)"
| "deriv c (Star a) = Seq (deriv c a) (Star a)"

text \<open>\<^verbatim>\<open>re.fullmatch\<close>: the whole string is in the language.\<close>

fun fullmatch :: "rx \<Rightarrow> string \<Rightarrow> bool" where
  "fullmatch r [] = nullable r"
| "fullmatch r (c # cs) = fullmatch (deriv c r) cs"

text \<open>\<^verbatim>\<open>re.match\<close>: some prefix of the string is in the language.\<close>

fun rmatch :: "rx \<Rightarrow> string \<Rightarrow> bool" where
  "rmatch r [] = nullable r"
| "rmatch r (c # cs) = (nullable r \<or> rmatch (deriv c r) cs)"

text \<open>
  A pattern that ends in \<^verbatim>\<open>$\<close>: the match must reach the end of the string, or stop
  just before a line feed that is the last character.
\<close>

definition dollar :: "rx \<Rightarrow> rx" where
  "dollar r = Seq r (Alt Eps (Cls (\<lambda>c. c = CHR 0x0A)))"

text \<open>\<^verbatim>\<open>re.search\<close> with a pattern ending in \<^verbatim>\<open>$\<close>: some suffix matches to the end.\<close>

fun search_dollar :: "rx \<Rightarrow> string \<Rightarrow> bool" where
  "search_dollar r [] = fullmatch (dollar r) []"
| "search_dollar r (c # cs) = (fullmatch (dollar r) (c # cs) \<or> search_dollar r cs)"

text \<open>\<^verbatim>\<open>re.match\<close> with a pattern ending in \<^verbatim>\<open>$\<close>.\<close>

definition match_dollar :: "rx \<Rightarrow> string \<Rightarrow> bool" where
  "match_dollar r s = fullmatch (dollar r) s"

abbreviation Chr :: "char \<Rightarrow> rx" where
  "Chr c \<equiv> Cls (\<lambda>x. x = c)"

text \<open>A letter under \<^verbatim>\<open>re.IGNORECASE\<close>.\<close>

definition Chi :: "char \<Rightarrow> rx" where
  "Chi c = Cls (\<lambda>x. lower_char x = lower_char c)"

definition Plus :: "rx \<Rightarrow> rx" where
  "Plus r = Seq r (Star r)"

definition Opt :: "rx \<Rightarrow> rx" where
  "Opt r = Alt r Eps"

fun Seqs :: "rx list \<Rightarrow> rx" where
  "Seqs [] = Eps"
| "Seqs [r] = r"
| "Seqs (r # rs) = Seq r (Seqs rs)"

abbreviation Digit :: rx where "Digit \<equiv> Cls is_digit"
abbreviation Space :: rx where "Space \<equiv> Cls is_space"
abbreviation Dot :: rx where "Dot \<equiv> Chr CHR ''.''"

text \<open>\<^verbatim>\<open>.\<close> matches every character but the line feed.\<close>

abbreviation AnyChar :: rx where "AnyChar \<equiv> Cls (\<lambda>c. c \<noteq> CHR 0x0A)"

section \<open>Numbers\<close>

text \<open>
  Font sizes and coordinates are floats in the source; they are modelled by the real
  numbers they denote. \<^verbatim>\<open>round(x)\<close> rounds to the nearest integer, a tie going to
  the even one; \<^verbatim>\<open>round(x, 2)\<close> does the same at the second decimal. Products,
  differences and comparisons are exact here. The floating-point arithmetic of the source
  rounds, so at an exact boundary it can decide differently: as floats,
  \<^verbatim>\<open>13.0 * 0.9\<close> is above 11.7 and \<^verbatim>\<open>abs(13.9 - 14.0) < 0.1\<close> holds. This concerns
  the scaled thresholds of the style fallback and the 0.1 test of the title words.
\<close>

definition py_round :: "real \<Rightarrow> int" where
  "py_round x =
     (let f = \<lfloor>x\<rfloor>; d = x - of_int f
      in if d < 1 / 2 then f else if 1 / 2 < d then f + 1 else if even f then f else f + 1)"

definition py_round2 :: "real \<Rightarrow> real" where
  "py_round2 x = of_int (py_round (x * 100)) / 100"

text \<open>\<^verbatim>\<open>d.get(key, 0)\<close> on an optional numeric field.\<close>

definition get0 :: "real option \<Rightarrow> real" where
  "get0 v = (case v of None \<Rightarrow> 0 | Some x \<Rightarrow> x)"

section \<open>What the PDF library hands over\<close>

text \<open>
  The library's objects are dictionaries; a field the source reads with \<^verbatim>\<open>.get\<close> is
  optional, a field it reads with \<^verbatim>\<open>[...]\<close> is always there. A page carries the
  results of the calls the source makes on it.
\<close>

record pchar =
  ch_text :: string
  ch_size :: "real option"
  ch_fontname :: "string option"

record word =
  w_text :: string
  w_size :: "real option"
  w_y0 :: "real option"
  w_x0 :: "real option"
  w_fontname :: "string option"

record text_line =
  l_text :: string
  l_chars :: "pchar list"

record page =
  page_chars :: "pchar list"
  words_y3 :: "word list"
  words_x2y2 :: "word list"
  text_lines :: "text_line list"

text \<open>
  \<open>page_chars\<close> is \<^verbatim>\<open>page.chars\<close>, \<open>words_y3\<close> is
  \<^verbatim>\<open>page.extract_words(y_tolerance=3)\<close>, \<open>words_x2y2\<close> is
  \<^verbatim>\<open>page.extract_words(x_tolerance=2, y_tolerance=2)\<close> and \<open>text_lines\<close> is
  \<^verbatim>\<open>page.extract_text_lines(layout=True, strip=True)\<close>.
\<close>

record pdf =
  pages :: "page list"

text \<open>\<^verbatim>\<open>pdfplumber.open\<close> either raises or yields a document.\<close>

datatype pdf_open = Unreadable | Readable pdf

text \<open>The level \<open>H n\<close> is the string \<^verbatim>\<open>"Hn"\<close>.\<close>

datatype level = H nat

record outline_entry =
  e_level :: level
  e_text :: string
  e_page :: nat

record outline_result =
  title :: string
  outline :: "outline_entry list"

text \<open>
  A \<^verbatim>\<open>defaultdict(list)\<close> in insertion order: \<^verbatim>\<open>d[k].append(v)\<close> and
  \<^verbatim>\<open>d[k]\<close>.
\<close>

definition dict_append :: "('k \<times> 'v list) list \<Rightarrow> 'k \<Rightarrow> 'v \<Rightarrow> ('k \<times> 'v list) list" where
  "dict_append d k v =
     (if k \<in> set (map fst d)
      then map (\<lambda>(k', vs). if k' = k then (k', vs @ [v]) else (k', vs)) d
      else d @ [(k, [v])])"

definition dict_get :: "('k \<times> 'v list) list \<Rightarrow> 'k \<Rightarrow> 'v list" where
  "dict_get d k = (case map_of d k of None \<Rightarrow> [] | Some vs \<Rightarrow> vs)"

section \<open>ext2.py: the heading heuristics\<close>

record font_stats =
  h1_font_threshold :: real
  h2_font_threshold :: real
  h3_font_threshold :: real
  h4_font_threshold :: real

text \<open>Rule 2: \<^verbatim>\<open>\.{4,}\s*\d+$\<close>.\<close>

definition toc_rx :: rx where
  "toc_rx = Seqs [Dot, Dot, Dot, Dot, Star Dot, Star Space, Plus Digit]"

text \<open>Rule 4: \<^verbatim>\<open>^\d\.\d\s+[A-Z0-9\s]+$\<close>.\<close>

definition revision_rx :: rx where
  "revision_rx =
     Seqs [Digit, Dot, Digit, Plus Space, Plus (Cls (\<lambda>c. is_upper c \<or> is_digit c \<or> is_space c))]"

text \<open>Rules 5 and 8: \<^verbatim>\<open>^\d+\.\s\<close>.\<close>

definition numbered_rx :: rx where
  "numbered_rx = Seqs [Plus Digit, Dot, Space]"

text \<open>Rule 7: \<^verbatim>\<open>Page\s*\d+(\s*of\s*\d+)?\<close> ignoring case, and \<^verbatim>\<open>\d+\<close>.\<close>

definition page_rx :: rx where
  "page_rx =
     Seqs [Chi CHR ''P'', Chi CHR ''a'', Chi CHR ''g'', Chi CHR ''e'', Star Space, Plus Digit,
           Opt (Seqs [Star Space, Chi CHR ''o'', Chi CHR ''f'', Star Space, Plus Digit])]"

definition digits_rx :: rx where
  "digits_rx = Plus Digit"

definition is_likely_heading :: "string \<Rightarrow> real \<Rightarrow> bool \<Rightarrow> font_stats \<Rightarrow> nat \<Rightarrow> bool" where
  "is_likely_heading line_text font_size is_bold fs line_word_count =
     (if line_text = [] \<or> length line_text < 3 then False
      else if search_dollar toc_rx line_text then False
      else if 12 < line_word_count \<or> endswith_char line_text CHR '','' then False
      else if match_dollar revision_rx line_text then False
      else if rmatch numbered_rx line_text \<and> 8 < line_word_count then False
      else if isupper line_text \<and> 1 < line_word_count \<and> font_size < h2_font_threshold fs
        then False
      else if fullmatch page_rx line_text \<or> fullmatch digits_rx line_text then False
      else if rmatch numbered_rx line_text \<and> \<not> is_bold \<and> font_size < h2_font_threshold fs
        then False
      else True)"

text \<open>
  The numbering patterns \<^verbatim>\<open>h_patterns\<close>:
  \<^verbatim>\<open>^(Appendix\s[A-Z]|\d+)\.\s+.*\<close>, \<^verbatim>\<open>^\d+\.\d+\s+.*\<close>,
  \<^verbatim>\<open>^\d+\.\d+\.\d+\s+.*\<close> and \<^verbatim>\<open>^\d+\.\d+\.\d+\.\d+\s+.*\<close>.
\<close>

definition h1_rx :: rx where
  "h1_rx =
     Seqs [Alt (Seqs [Chr CHR ''A'', Chr CHR ''p'', Chr CHR ''p'', Chr CHR ''e'', Chr CHR ''n'',
                      Chr CHR ''d'', Chr CHR ''i'', Chr CHR ''x'', Space, Cls is_upper])
               (Plus Digit),
           Dot, Plus Space, Star AnyChar]"

definition h2_rx :: rx where
  "h2_rx = Seqs [Plus Digit, Dot, Plus Digit, Plus Space, Star AnyChar]"

definition h3_rx :: rx where
  "h3_rx = Seqs [Plus Digit, Dot, Plus Digit, Dot, Plus Digit, Plus Space, Star AnyChar]"

definition h4_rx :: rx where
  "h4_rx =
     Seqs [Plus Digit, Dot, Plus Digit, Dot, Plus Digit, Dot, Plus Digit, Plus Space,
           Star AnyChar]"

text \<open>The style fallback for a line that carries no number (lines 143 to 146).\<close>

definition style_level :: "real \<Rightarrow> font_stats \<Rightarrow> level option" where
  "style_level font_size fs =
     (if h1_font_threshold fs * 0.9 \<le> font_size then Some (H 1)
      else if h2_font_threshold fs * 0.9 \<le> font_size then Some (H 2)
      else if h3_font_threshold fs * 0.9 \<le> font_size then Some (H 3)
      else None)"

text \<open>The level of an accepted line (lines 134 to 146); \<open>None\<close> is \<^verbatim>\<open>current_level = None\<close>.\<close>

definition assign_level :: "string \<Rightarrow> real \<Rightarrow> bool \<Rightarrow> font_stats \<Rightarrow> level option" where
  "assign_level line_text font_size is_bold fs =
     (if rmatch h4_rx line_text then Some (H 4)
      else if rmatch h3_rx line_text then Some (H 3)
      else if rmatch h2_rx line_text then Some (H 2)
      else if rmatch h1_rx line_text then Some (H 1)
      else if is_bold \<or> isupper line_text then style_level font_size fs
      else None)"

text \<open>
  The heading classifier: a cleaned line with its size and boldness is rejected
  (\<open>None\<close>) or gets a level. It is what the loop body does between cleaning the line and
  appending the entry.
\<close>

definition classify_line :: "string \<Rightarrow> real \<Rightarrow> bool \<Rightarrow> font_stats \<Rightarrow> level option" where
  "classify_line line_text font_size is_bold fs =
     (if \<not> is_likely_heading line_text font_size is_bold fs (length (split_ws line_text))
      then None
      else assign_level line_text font_size is_bold fs)"

text \<open>\<^verbatim>\<open>'bold' in font_name or 'black' in font_name or 'heavy' in font_name\<close>.\<close>

definition bold_name :: "string \<Rightarrow> bool" where
  "bold_name font_name =
     (contains ''bold'' font_name \<or> contains ''black'' font_name \<or> contains ''heavy'' font_name)"

definition fontname_lower :: "string option \<Rightarrow> string" where
  "fontname_lower v = lower (case v of None \<Rightarrow> [] | Some n \<Rightarrow> n)"

text \<open>The first character of the line whose text is not blank.\<close>

definition first_char :: "pchar list \<Rightarrow> pchar option" where
  "first_char cs = (case filter (\<lambda>c. strip (ch_text c) \<noteq> []) cs of [] \<Rightarrow> None | c # _ \<Rightarrow> Some c)"

text \<open>One pass of the loop over the lines of a page (lines 120 to 153).\<close>

definition heading_of_line :: "font_stats \<Rightarrow> nat \<Rightarrow> text_line \<Rightarrow> outline_entry option" where
  "heading_of_line fs page_num line =
     (let line_text = clean_text (l_text line)
      in case first_char (l_chars line) of
           None \<Rightarrow> None
         | Some fc \<Rightarrow>
             (let font_size = py_round2 (get0 (ch_size fc));
                  is_bold = bold_name (fontname_lower (ch_fontname fc))
              in case classify_line line_text font_size is_bold fs of
                   None \<Rightarrow> None
                 | Some lv \<Rightarrow> Some \<lparr>e_level = lv, e_text = line_text, e_page = page_num\<rparr>))"

text \<open>\<^verbatim>\<open>enumerate(pdf.pages, 1)\<close>.\<close>

definition enumerate1 :: "'a list \<Rightarrow> (nat \<times> 'a) list" where
  "enumerate1 xs = zip [1 ..< Suc (length xs)] xs"

definition raw_outline_ext2 :: "font_stats \<Rightarrow> page list \<Rightarrow> outline_entry list" where
  "raw_outline_ext2 fs ps =
     concat (map (\<lambda>(page_num, p). List.map_filter (heading_of_line fs page_num) (text_lines p))
                 (enumerate1 ps))"

section \<open>Deduplication of the outline (ext2.py and ext3.py)\<close>

definition entry_key :: "outline_entry \<Rightarrow> string \<times> nat" where
  "entry_key e = (lower (e_text e), e_page e)"

text \<open>
  The loop over \<^verbatim>\<open>outline\<close> with the set \<^verbatim>\<open>seen_entries\<close>; the function returns what
  the loop appends to \<^verbatim>\<open>final_outline\<close> from here on.
\<close>

fun dedup_loop :: "(string \<times> nat) set \<Rightarrow> outline_entry list \<Rightarrow> outline_entry list" where
  "dedup_loop seen [] = []"
| "dedup_loop seen (e # es) =
     (if entry_key e \<notin> seen then e # dedup_loop (insert (entry_key e) seen) es
      else dedup_loop seen es)"

definition dedup_outline :: "outline_entry list \<Rightarrow> outline_entry list" where
  "dedup_outline es = dedup_loop {} es"

section \<open>ext2.py: font statistics, title and outline\<close>

text \<open>Phase 1: the distinct rounded character sizes, largest first.\<close>

definition sorted_sizes_ext2 :: "page list \<Rightarrow> real list" where
  "sorted_sizes_ext2 ps =
     rev (sort (remdups (map (\<lambda>c. py_round2 (get0 (ch_size c))) (concat (map page_chars ps)))))"

definition nth_or0 :: "real list \<Rightarrow> nat \<Rightarrow> real" where
  "nth_or0 xs i = (if i < length xs then xs ! i else 0)"

definition font_stats_ext2 :: "page list \<Rightarrow> font_stats" where
  "font_stats_ext2 ps =
     (let ss = sorted_sizes_ext2 ps
      in \<lparr>h1_font_threshold = nth_or0 ss 0, h2_font_threshold = nth_or0 ss 1,
          h3_font_threshold = nth_or0 ss 2, h4_font_threshold = nth_or0 ss 3\<rparr>)"

text \<open>Phase 2: the words of the first page at the largest size, grouped by rounded \<open>y0\<close>.\<close>

definition lines_with_max_font :: "real \<Rightarrow> word list \<Rightarrow> (int \<times> string list) list" where
  "lines_with_max_font max_font_size ws =
     foldl (\<lambda>d w. if \<bar>get0 (w_size w) - max_font_size\<bar> < 0.1
                   then dict_append d (py_round (get0 (w_y0 w))) (w_text w) else d)
           [] ws"

text \<open>The title before the fallback (lines 86 to 102).\<close>

definition cleaned_title_ext2 :: "real \<Rightarrow> word list \<Rightarrow> string" where
  "cleaned_title_ext2 max_font_size ws =
     (if 0 < max_font_size
      then (let d = lines_with_max_font max_font_size ws
            in if d \<noteq> []
               then clean_text (join_sp (map (\<lambda>y. join_sp (dict_get d y))
                                             (take 3 (sort (map fst d)))))
               else [])
      else [])"

text \<open>Lines 104 and 105.\<close>

definition title_fallback :: "string \<Rightarrow> string" where
  "title_fallback t = (if t = [] \<or> length t < 5 then ''Untitled Document'' else t)"

definition extract_title_ext2 :: "real \<Rightarrow> word list \<Rightarrow> string" where
  "extract_title_ext2 max_font_size ws = title_fallback (cleaned_title_ext2 max_font_size ws)"

text \<open>
  \<^verbatim>\<open>extract_outline_with_pdfplumber\<close> of ext2.py. The \<^verbatim>\<open>except\<close> branch is reached
  when the document cannot be opened; on the records above no later step raises.
\<close>

definition extract_outline_ext2 :: "pdf_open \<Rightarrow> outline_result" where
  "extract_outline_ext2 r =
     (case r of
        Unreadable \<Rightarrow> \<lparr>title = ''Error Processing Document'', outline = []\<rparr>
      | Readable doc \<Rightarrow>
          (case pages doc of
             [] \<Rightarrow> \<lparr>title = ''Empty Document'', outline = []\<rparr>
           | first_page # _ \<Rightarrow>
               (let fs = font_stats_ext2 (pages doc)
                in \<lparr>title = extract_title_ext2 (h1_font_threshold fs) (words_y3 first_page),
                    outline = dedup_outline (raw_outline_ext2 fs (pages doc))\<rparr>)))"

section \<open>ext3.py: the frequency-based variant\<close>

text \<open>
  \<^verbatim>\<open>font_sizes[size] += 1\<close> on a \<^verbatim>\<open>defaultdict(int)\<close>, in insertion order.
\<close>

definition count_add :: "(int \<times> nat) list \<Rightarrow> int \<Rightarrow> (int \<times> nat) list" where
  "count_add d k =
     (if k \<in> set (map fst d)
      then map (\<lambda>(k', n). if k' = k then (k', Suc n) else (k', n)) d
      else d @ [(k, 1)])"

definition font_sizes_ext3 :: "page list \<Rightarrow> (int \<times> nat) list" where
  "font_sizes_ext3 ps =
     foldl (\<lambda>d w. count_add d (py_round (get0 (w_size w)))) [] (concat (map words_x2y2 ps))"

text \<open>\<^verbatim>\<open>max(font_sizes, key=font_sizes.get)\<close>: the first key whose count is largest.\<close>

fun first_max :: "(int \<times> nat) \<Rightarrow> (int \<times> nat) list \<Rightarrow> int" where
  "first_max best [] = fst best"
| "first_max best (kc # rest) = first_max (if snd best < snd kc then kc else best) rest"

text \<open>\<^verbatim>\<open>analyze_document_styles\<close>: the body size and the heading sizes, largest first.\<close>

definition analyze_document_styles :: "page list \<Rightarrow> int \<times> int list" where
  "analyze_document_styles ps =
     (case font_sizes_ext3 ps of
        [] \<Rightarrow> (0, [])
      | kc # rest \<Rightarrow>
          (let body_size = first_max kc rest
           in (body_size,
               rev (sort (filter (\<lambda>size. body_size + 1 < size) (map fst (kc # rest)))))))"

text \<open>\<^verbatim>\<open>level_map.get(font_size, "H4")\<close>.\<close>

definition level_map_get :: "int list \<Rightarrow> int \<Rightarrow> level" where
  "level_map_get heading_sizes font_size =
     (case map_of (zip heading_sizes (map (\<lambda>i. H (Suc i)) [0 ..< length heading_sizes])) font_size of
        None \<Rightarrow> H 4
      | Some lv \<Rightarrow> lv)"

text \<open>The words of the first page at the largest heading size, grouped by rounded \<open>y0\<close>.\<close>

definition title_lines_ext3 :: "int \<Rightarrow> word list \<Rightarrow> (int \<times> string list) list" where
  "title_lines_ext3 max_heading_size ws =
     foldl (\<lambda>d w. dict_append d (py_round (get0 (w_y0 w))) (w_text w)) []
           (filter (\<lambda>w. py_round (get0 (w_size w)) = max_heading_size) ws)"

text \<open>
  The cleaned title of ext3.py (lines 62 to 84); it is empty where the source does not
  get as far as computing it.
\<close>

definition cleaned_title_ext3 :: "int list \<Rightarrow> word list \<Rightarrow> string" where
  "cleaned_title_ext3 heading_sizes ws =
     (case heading_sizes of
        [] \<Rightarrow> []
      | max_heading_size # _ \<Rightarrow>
          (let d = title_lines_ext3 max_heading_size ws
           in if d \<noteq> []
              then clean_text (join_sp (map (\<lambda>y. join_sp (dict_get d y)) (sort (map fst d))))
              else []))"

text \<open>Lines 61 and 85 to 86: the default stays unless the cleaned title is non-empty.\<close>

definition extract_title_ext3 :: "int list \<Rightarrow> word list \<Rightarrow> string" where
  "extract_title_ext3 heading_sizes ws =
     (let cleaned_title = cleaned_title_ext3 heading_sizes ws
      in if cleaned_title \<noteq> [] then cleaned_title else ''Untitled Document'')"

text \<open>Rule 3: \<^verbatim>\<open>\.{3,}\s*\d+$\<close>; rule 4: \<^verbatim>\<open>^\d\.\d\s\<close>; rule 5: \<^verbatim>\<open>^\d+(\.\d+)*\s\<close>.\<close>

definition toc3_rx :: rx where
  "toc3_rx = Seqs [Dot, Dot, Dot, Star Dot, Star Space, Plus Digit]"

definition revision3_rx :: rx where
  "revision3_rx = Seqs [Digit, Dot, Digit, Space]"

definition numbering3_rx :: rx where
  "numbering3_rx = Seqs [Plus Digit, Star (Seq Dot (Plus Digit)), Space]"

text \<open>The words of a page grouped into rows by rounded \<open>y0\<close>.\<close>

definition lines_ext3 :: "word list \<Rightarrow> (int \<times> word list) list" where
  "lines_ext3 ws = foldl (\<lambda>d w. dict_append d (py_round (get0 (w_y0 w))) w) [] ws"

text \<open>One pass of the loop over the rows of a page (lines 101 to 144).\<close>

definition heading_of_row :: "int list \<Rightarrow> nat \<Rightarrow> word list \<Rightarrow> outline_entry option" where
  "heading_of_row heading_sizes page_num row =
     (case sort_key (\<lambda>w. get0 (w_x0 w)) row of
        [] \<Rightarrow> None
      | first_word # more_words \<Rightarrow>
          (let line_words = first_word # more_words;
               line_text = clean_text (join_sp (map w_text line_words));
               font_size = py_round (get0 (w_size first_word));
               is_bold = bold_name (fontname_lower (w_fontname first_word))
           in if font_size \<notin> set heading_sizes then None
              else if \<not> is_bold \<and> \<not> isupper line_text then None
              else if search_dollar toc3_rx line_text then None
              else if rmatch revision3_rx line_text then None
              else if rmatch numbering3_rx line_text \<and> 8 < length line_words then None
              else if 12 < length line_words then None
              else Some \<lparr>e_level = level_map_get heading_sizes font_size, e_text = line_text,
                         e_page = page_num\<rparr>))"

definition raw_outline_ext3 :: "int list \<Rightarrow> page list \<Rightarrow> outline_entry list" where
  "raw_outline_ext3 heading_sizes ps =
     concat (map (\<lambda>(page_num, p).
                    (let d = lines_ext3 (words_x2y2 p)
                     in List.map_filter (\<lambda>y. heading_of_row heading_sizes page_num (dict_get d y))
                                        (sort (map fst d))))
                 (enumerate1 ps))"

text \<open>\<^verbatim>\<open>extract_outline_with_pdfplumber\<close> of ext3.py.\<close>

definition extract_outline_ext3 :: "pdf_open \<Rightarrow> outline_result" where
  "extract_outline_ext3 r =
     (case r of
        Unreadable \<Rightarrow> \<lparr>title = ''Error Processing Document'', outline = []\<rparr>
      | Readable doc \<Rightarrow>
          (case pages doc of
             [] \<Rightarrow> \<lparr>title = ''Empty Document'', outline = []\<rparr>
           | first_page # _ \<Rightarrow>
               (let heading_sizes = snd (analyze_document_styles (pages doc))
                in \<lparr>title = extract_title_ext3 heading_sizes (words_y3 first_page),
                    outline = dedup_outline (raw_outline_ext3 heading_sizes (pages doc))\<rparr>)))"

section \<open>persona_analyst.py\<close>

text \<open>
  The names the module binds at import time: its \<^verbatim>\<open>import\<close> statements (lines 2 to 19),
  the global \<^verbatim>\<open>nlp\<close> and its two functions. A name that is read and is not in this
  list (nor a builtin) raises \<^verbatim>\<open>NameError\<close>.
\<close>

datatype py_error = NameError string | IndexError

definition persona_analyst_globals :: "string list" where
  "persona_analyst_globals =
     [''os'', ''json'', ''sys'', ''spacy'', ''defaultdict'', ''TfidfVectorizer'',
      ''cosine_similarity'', ''np'', ''datetime'', ''extract_outline_with_pdfplumber'', ''nlp'',
      ''get_text_content_for_section'', ''analyze_document_collection'']"

text \<open>Python indexing of a list: a negative index counts from the end.\<close>

definition py_nth :: "'a list \<Rightarrow> int \<Rightarrow> 'a option" where
  "py_nth xs i =
     (let n = int (length xs); j = (if i < 0 then n + i else i)
      in if 0 \<le> j \<and> j < n then Some (xs ! nat j) else None)"

text \<open>Truthiness of an optional page number and of an optional title.\<close>

definition truthy_int :: "int option \<Rightarrow> bool" where
  "truthy_int v = (case v of None \<Rightarrow> False | Some n \<Rightarrow> n \<noteq> 0)"

definition truthy_str :: "string option \<Rightarrow> bool" where
  "truthy_str v = (case v of None \<Rightarrow> False | Some t \<Rightarrow> t \<noteq> [])"

definition the_int :: "int option \<Rightarrow> int" where
  "the_int v = (case v of None \<Rightarrow> 0 | Some n \<Rightarrow> n)"

definition the_str :: "string option \<Rightarrow> string" where
  "the_str v = (case v of None \<Rightarrow> [] | Some t \<Rightarrow> t)"

text \<open>
  The loop over the lines of one page (lines 49 to 70). The result is
  \<^verbatim>\<open>text_content_parts\<close> when the loop ends or breaks.
\<close>

fun scan_lines ::
  "string \<Rightarrow> int option \<Rightarrow> string option \<Rightarrow> int \<Rightarrow> bool \<Rightarrow> text_line list \<Rightarrow> string list \<Rightarrow> string list"
where
  "scan_lines section_title next_page next_title idx found_title [] parts = parts"
| "scan_lines section_title next_page next_title idx found_title (line # rest) parts =
     (let cleaned_line_text = strip (l_text line)
      in if \<not> found_title
         then (if contains section_title cleaned_line_text
               then scan_lines section_title next_page next_title idx True rest
                      (parts @ [cleaned_line_text])
               else scan_lines section_title next_page next_title idx False rest parts)
         else if truthy_int next_page \<and> truthy_str next_title \<and> idx = the_int next_page - 1
                 \<and> contains (the_str next_title) cleaned_line_text
         then parts
         else scan_lines section_title next_page next_title idx True rest
                (parts @ [cleaned_line_text]))"

text \<open>
  The loop over the page indices (lines 45 to 75). An index outside the document raises
  \<^verbatim>\<open>IndexError\<close>, which the \<^verbatim>\<open>except\<close> clause swallows: the parts gathered so far
  stay.
\<close>

fun scan_pages ::
  "page list \<Rightarrow> string \<Rightarrow> int option \<Rightarrow> string option \<Rightarrow> int list \<Rightarrow> string list \<Rightarrow> string list"
where
  "scan_pages ps section_title next_page next_title [] parts = parts"
| "scan_pages ps section_title next_page next_title (idx # rest) parts =
     (case py_nth ps idx of
        None \<Rightarrow> parts
      | Some p \<Rightarrow>
          (let parts' = scan_lines section_title next_page next_title idx False (text_lines p) parts
           in if truthy_int next_page \<and> the_int next_page - 1 \<le> idx then parts'
              else scan_pages ps section_title next_page next_title rest parts'))"

text \<open>
  \<^verbatim>\<open>get_text_content_for_section\<close>, in a module whose bound names are \<open>g\<close>. Reading
  \<^verbatim>\<open>pdfplumber\<close> happens inside the \<^verbatim>\<open>try\<close>, so its \<^verbatim>\<open>NameError\<close> is caught
  and the parts stay empty; reading \<^verbatim>\<open>re\<close> happens after the \<^verbatim>\<open>try\<close> statement
  (line 83), so its \<^verbatim>\<open>NameError\<close> leaves the function.
\<close>

definition get_text_content_for_section ::
  "string list \<Rightarrow> pdf_open \<Rightarrow> int \<Rightarrow> string \<Rightarrow> int option \<Rightarrow> string option \<Rightarrow> py_error + string"
where
  "get_text_content_for_section g file page_number section_title next_page next_title =
     (let finish = (\<lambda>parts. if ''re'' \<in> set g then Inr (strip (collapse_ws (join_sp parts)))
                             else Inl (NameError ''re''))
      in if ''pdfplumber'' \<notin> set g then finish []
         else (case file of
                 Unreadable \<Rightarrow> finish []
               | Readable doc \<Rightarrow>
                   if int (length (pages doc)) < page_number then Inr []
                   else finish (scan_pages (pages doc) section_title next_page next_title
                                  [page_number - 1 .. int (length (pages doc)) - 1] [])))"

record input_doc =
  doc_path :: string
  doc_file :: pdf_open

record extracted_section =
  document :: string
  page_number :: int
  section_title :: string
  full_text_content :: string
  importance_rank :: real

text \<open>\<^verbatim>\<open>os.path.basename\<close>: what follows the last slash.\<close>

definition basename :: "string \<Rightarrow> string" where
  "basename p = rev (takeWhile (\<lambda>c. c \<noteq> CHR ''/'') (rev p))"

record boundary =
  b_title :: string
  b_page :: int
  b_next_title :: "string option"
  b_next_page :: "int option"

text \<open>Lines 105 to 113: every entry with the title and page of the entry after it.\<close>

fun section_boundaries :: "outline_entry list \<Rightarrow> boundary list" where
  "section_boundaries [] = []"
| "section_boundaries [e] =
     [\<lparr>b_title = e_text e, b_page = int (e_page e), b_next_title = None, b_next_page = None\<rparr>]"
| "section_boundaries (e # e' # es) =
     \<lparr>b_title = e_text e, b_page = int (e_page e), b_next_title = Some (e_text e'),
      b_next_page = Some (int (e_page e'))\<rparr> # section_boundaries (e' # es)"

text \<open>Lines 115 to 130 for one document; the first error ends the run.\<close>

fun sections_of_doc :: "string list \<Rightarrow> input_doc \<Rightarrow> boundary list \<Rightarrow> py_error + extracted_section list" where
  "sections_of_doc g d [] = Inr []"
| "sections_of_doc g d (b # bs) =
     (case get_text_content_for_section g (doc_file d) (b_page b) (b_title b) (b_next_page b)
             (b_next_title b) of
        Inl e \<Rightarrow> Inl e
      | Inr section_content \<Rightarrow>
          (case sections_of_doc g d bs of
             Inl e \<Rightarrow> Inl e
           | Inr rest \<Rightarrow>
               Inr (\<lparr>document = basename (doc_path d), page_number = b_page b,
                     section_title = b_title b, full_text_content = section_content,
                     importance_rank = 0\<rparr> # rest)))"

text \<open>
  Step 1 (lines 99 to 130). The outline extractor is imported from a module
  \<^verbatim>\<open>outline_extractor\<close>; it is the parameter \<open>extract\<close>.
\<close>

fun gather_sections ::
  "string list \<Rightarrow> (pdf_open \<Rightarrow> outline_result) \<Rightarrow> input_doc list \<Rightarrow> py_error + extracted_section list"
where
  "gather_sections g extract [] = Inr []"
| "gather_sections g extract (d # ds) =
     (case sections_of_doc g d (section_boundaries (outline (extract (doc_file d)))) of
        Inl e \<Rightarrow> Inl e
      | Inr secs \<Rightarrow>
          (case gather_sections g extract ds of
             Inl e \<Rightarrow> Inl e
           | Inr rest \<Rightarrow> Inr (secs @ rest)))"

text \<open>
  Lines 158 to 161: every section gets \<^verbatim>\<open>similarities[i]\<close>; an index past the end
  of the array raises.
\<close>

fun assign_ranks :: "extracted_section list \<Rightarrow> real list \<Rightarrow> py_error + extracted_section list" where
  "assign_ranks [] sims = Inr []"
| "assign_ranks (s # ss) [] = Inl IndexError"
| "assign_ranks (s # ss) (x # xs) =
     (case assign_ranks ss xs of
        Inl e \<Rightarrow> Inl e
      | Inr rest \<Rightarrow> Inr (s\<lparr>importance_rank := x\<rparr> # rest))"

text \<open>
  Line 164: \<^verbatim>\<open>list.sort(key=..., reverse=True)\<close> is a stable sort into descending
  order of the key, that is a stable ascending sort on the negated key.
\<close>

definition sort_by_rank_desc :: "extracted_section list \<Rightarrow> extracted_section list" where
  "sort_by_rank_desc secs = sort_key (\<lambda>s. - importance_rank s) secs"

definition rank_sections :: "extracted_section list \<Rightarrow> real list \<Rightarrow> py_error + extracted_section list" where
  "rank_sections secs sims =
     (case assign_ranks secs sims of Inl e \<Rightarrow> Inl e | Inr scored \<Rightarrow> Inr (sort_by_rank_desc scored))"

text \<open>
  What the language pipeline returns for a text: its sentences, each with its tokens. The
  tokens of the whole text are those of its sentences, in order.
\<close>

record token =
  tok_lemma :: string
  is_alpha :: bool
  is_stop :: bool
  is_punct :: bool

record sentence =
  s_text :: string
  s_tokens :: "token list"

definition content_lemmas :: "token list \<Rightarrow> string list" where
  "content_lemmas toks = map tok_lemma (filter (\<lambda>t. is_alpha t \<and> \<not> is_stop t \<and> \<not> is_punct t) toks)"

text \<open>Lines 188 to 193: is the sentence relevant to the query?\<close>

definition relevant :: "string list \<Rightarrow> string list \<Rightarrow> bool" where
  "relevant query_keywords sent_keywords =
     (let intersection = card (set query_keywords \<inter> set sent_keywords);
          union = card (set query_keywords \<union> set sent_keywords)
      in 0 < union \<and> 0.05 < real intersection / real union)"

text \<open>The loop over the sentences of a section (lines 184 to 199).\<close>

fun select_sentences :: "string list \<Rightarrow> sentence list \<Rightarrow> string list \<Rightarrow> string list" where
  "select_sentences query_keywords [] relevant_sentences = relevant_sentences"
| "select_sentences query_keywords (sent # rest) relevant_sentences =
     (let relevant_sentences' =
            (if relevant query_keywords (content_lemmas (s_tokens sent))
             then relevant_sentences @ [strip (s_text sent)] else relevant_sentences)
      in if 1000 < sum_list (map length relevant_sentences') then relevant_sentences'
         else select_sentences query_keywords rest relevant_sentences')"

record refined =
  r_document :: string
  r_page_number :: int
  refined_text :: string

text \<open>Lines 178 to 206 for one section: the entry it adds, if any.\<close>

definition refine_section :: "(string \<Rightarrow> sentence list) \<Rightarrow> string list \<Rightarrow> extracted_section \<Rightarrow> refined option" where
  "refine_section nlp query_keywords sec =
     (if full_text_content sec = [] then None
      else (let relevant_sentences = select_sentences query_keywords (nlp (full_text_content sec)) []
            in if relevant_sentences \<noteq> []
               then Some \<lparr>r_document = document sec, r_page_number = page_number sec,
                          refined_text = join_sp relevant_sentences\<rparr>
               else None))"

text \<open>The loop over the ranked sections (lines 174 to 206), from index \<open>i\<close> on.\<close>

fun refine_loop ::
  "(string \<Rightarrow> sentence list) \<Rightarrow> string list \<Rightarrow> nat \<Rightarrow> extracted_section list \<Rightarrow> refined list"
where
  "refine_loop nlp query_keywords i [] = []"
| "refine_loop nlp query_keywords i (sec # rest) =
     (if 5 \<le> i then []
      else (case refine_section nlp query_keywords sec of
              None \<Rightarrow> refine_loop nlp query_keywords (Suc i) rest
            | Some r \<Rightarrow> r # refine_loop nlp query_keywords (Suc i) rest))"

record ranked_section =
  o_document :: string
  o_page_number :: int
  o_section_title :: string
  o_importance_rank :: real

definition drop_content :: "extracted_section \<Rightarrow> ranked_section" where
  "drop_content s =
     \<lparr>o_document = document s, o_page_number = page_number s, o_section_title = section_title s,
      o_importance_rank = importance_rank s\<rparr>"

record metadata =
  input_documents :: "string list"
  persona :: string
  job_to_be_done :: string
  processing_timestamp :: string

record analysis =
  a_metadata :: metadata
  extracted_sections :: "ranked_section list"
  sub_section_analysis :: "refined list"

text \<open>
  \<^verbatim>\<open>analyze_document_collection\<close>. The collaborators are parameters: the outline
  extractor, the language pipeline \<open>nlp\<close>, the vectoriser and cosine similarity
  \<open>similarities\<close> (from the section texts and the query text to one score per section)
  and the clock \<open>now\<close>.
\<close>

definition analyze_document_collection ::
  "string list \<Rightarrow> (pdf_open \<Rightarrow> outline_result) \<Rightarrow> (string \<Rightarrow> sentence list) \<Rightarrow>
   (string list \<Rightarrow> string \<Rightarrow> real list) \<Rightarrow> string \<Rightarrow>
   input_doc list \<Rightarrow> string \<Rightarrow> string \<Rightarrow> py_error + analysis"
where
  "analyze_document_collection g extract nlp similarities now docs persona_definition job =
     (let md = \<lparr>input_documents = map (\<lambda>d. basename (doc_path d)) docs,
                persona = persona_definition, job_to_be_done = job, processing_timestamp = now\<rparr>
      in case gather_sections g extract docs of
           Inl e \<Rightarrow> Inl e
         | Inr all_extracted_sections \<Rightarrow>
             if all_extracted_sections = []
             then Inr \<lparr>a_metadata = md, extracted_sections = [], sub_section_analysis = []\<rparr>
             else (let query_text = ''Persona: '' @ persona_definition @ ''. Job: '' @ job;
                       query_doc = nlp query_text;
                       sims = similarities (map full_text_content all_extracted_sections) query_text
                   in case rank_sections all_extracted_sections sims of
                        Inl e \<Rightarrow> Inl e
                      | Inr ranked_sections \<Rightarrow>
                          Inr \<lparr>a_metadata = md,
                               extracted_sections = map drop_content ranked_sections,
                               sub_section_analysis =
                                 refine_loop nlp (content_lemmas (concat (map s_tokens query_doc))) 0
                                   ranked_sections\<rparr>))"

section \<open>Notions used in the statements\<close>

text \<open>
  The level the numbering patterns give to a text, tried from the most specific to the
  least specific, and \<open>None\<close> when the text carries no number.
\<close>

definition numbering_level :: "string \<Rightarrow> level option" where
  "numbering_level t =
     (if rmatch h4_rx t then Some (H 4)
      else if rmatch h3_rx t then Some (H 3)
      else if rmatch h2_rx t then Some (H 2)
      else if rmatch h1_rx t then Some (H 1)
      else None)"

text \<open>
  A table-of-contents row as the page hands it over: a dot leader and a page number, set
  in a bold face at the largest size of the document.
\<close>

definition toc_line :: text_line where
  "toc_line = \<lparr>l_text = ''....... 42'',
                l_chars = [\<lparr>ch_text = ''.'', ch_size = Some 14, ch_fontname = Some ''Arial-BoldMT''\<rparr>]\<rparr>"

definition toc_stats :: font_stats where
  "toc_stats = \<lparr>h1_font_threshold = 14, h2_font_threshold = 12, h3_font_threshold = 11,
                h4_font_threshold = 10\<rparr>"

text \<open>
  The title rows in the words of the specification: the words of the first page within
  0.1 of the largest size, the row of a word (its rounded \<open>y0\<close>), and the rows in
  ascending order, each with the texts of its words in the order of the page.
\<close>

definition max_font_words :: "real \<Rightarrow> word list \<Rightarrow> word list" where
  "max_font_words m ws = filter (\<lambda>w. \<bar>get0 (w_size w) - m\<bar> < 0.1) ws"

definition word_row :: "word \<Rightarrow> int" where
  "word_row w = py_round (get0 (w_y0 w))"

definition title_rows :: "real \<Rightarrow> word list \<Rightarrow> string list list" where
  "title_rows m ws =
     map (\<lambda>y. map w_text (filter (\<lambda>w. word_row w = y) (max_font_words m ws)))
         (sort (remdups (map word_row (max_font_words m ws))))"

text \<open>Example pages.\<close>

definition mk_word :: "string \<Rightarrow> real \<Rightarrow> real \<Rightarrow> word" where
  "mk_word t sz y = \<lparr>w_text = t, w_size = Some sz, w_y0 = Some y, w_x0 = None, w_fontname = None\<rparr>"

definition mk_char :: "string \<Rightarrow> real \<Rightarrow> pchar" where
  "mk_char t sz = \<lparr>ch_text = t, ch_size = Some sz, ch_fontname = None\<rparr>"

definition annual_page :: page where
  "annual_page =
     \<lparr>page_chars = [mk_char ''A'' 14, mk_char ''b'' 10],
      words_y3 = [mk_word ''Annual'' 14 100, mk_word ''Report'' 14 120, mk_word ''2024'' 14 120,
                  mk_word ''body'' 10 140],
      words_x2y2 = [], text_lines = []\<rparr>"

definition annual_doc :: pdf where
  "annual_doc = \<lparr>pages = [annual_page]\<rparr>"

text \<open>
  A first page whose only large word is \<^verbatim>\<open>Hi\<close>, above three words of body text.
\<close>

definition short_page :: page where
  "short_page =
     \<lparr>page_chars = [mk_char ''H'' 20, mk_char ''s'' 10, mk_char ''b'' 10, mk_char ''t'' 10],
      words_y3 = [mk_word ''Hi'' 20 10, mk_word ''some'' 10 30, mk_word ''body'' 10 30,
                  mk_word ''text'' 10 30],
      words_x2y2 = [mk_word ''Hi'' 20 10, mk_word ''some'' 10 30, mk_word ''body'' 10 30,
                    mk_word ''text'' 10 30],
      text_lines = []\<rparr>"

definition short_doc :: pdf where
  "short_doc = \<lparr>pages = [short_page]\<rparr>"

text \<open>The sections with their scores, before the sort.\<close>

definition scored :: "extracted_section list \<Rightarrow> real list \<Rightarrow> extracted_section list" where
  "scored secs sims = map (\<lambda>(s, x). s\<lparr>importance_rank := x\<rparr>) (zip secs sims)"

text \<open>Jaccard similarity of two lemma lists read as sets, as the specification words it.\<close>

definition jaccard :: "string list \<Rightarrow> string list \<Rightarrow> real" where
  "jaccard a b = real (card (set a \<inter> set b)) / real (card (set a \<union> set b))"

text \<open>Example sections, tokens and documents.\<close>

definition mk_section :: "string \<Rightarrow> int \<Rightarrow> string \<Rightarrow> string \<Rightarrow> extracted_section" where
  "mk_section d p t body =
     \<lparr>document = d, page_number = p, section_title = t, full_text_content = body,
      importance_rank = 0\<rparr>"

definition mk_token :: "string \<Rightarrow> token" where
  "mk_token l = \<lparr>tok_lemma = l, is_alpha = True, is_stop = False, is_punct = False\<rparr>"

text \<open>A language pipeline for the examples: one sentence per text, one token per word.\<close>

definition word_nlp :: "string \<Rightarrow> sentence list" where
  "word_nlp t = [\<lparr>s_text = t, s_tokens = map mk_token (split_ws t)\<rparr>]"

definition three_sections :: "extracted_section list" where
  "three_sections =
     [mk_section ''a.pdf'' 1 ''Intro'' ''x'', mk_section ''a.pdf'' 2 ''Scope'' ''y'',
      mk_section ''b.pdf'' 1 ''Goals'' ''z'']"

definition ml_section :: extracted_section where
  "ml_section = mk_section ''a.pdf'' 1 ''Pipelines'' ''learning pipelines''"

definition cooking_section :: extracted_section where
  "cooking_section = mk_section ''a.pdf'' 2 ''Recipes'' ''cooking recipes''"

definition anchor_line :: text_line where
  "anchor_line =
     \<lparr>l_text = ''Annual Report'',
      l_chars = [\<lparr>ch_text = ''A'', ch_size = Some 14, ch_fontname = Some ''Helvetica-Bold''\<rparr>]\<rparr>"

definition body_line :: text_line where
  "body_line =
     \<lparr>l_text = ''Revenue grew this year.'',
      l_chars = [\<lparr>ch_text = ''R'', ch_size = Some 10, ch_fontname = Some ''Helvetica''\<rparr>]\<rparr>"

definition anchor_page :: page where
  "anchor_page =
     \<lparr>page_chars = l_chars anchor_line @ l_chars body_line,
      words_y3 = [], words_x2y2 = [], text_lines = [anchor_line, body_line]\<rparr>"

definition anchor_stats :: font_stats where
  "anchor_stats =
     \<lparr>h1_font_threshold = 14, h2_font_threshold = 10, h3_font_threshold = 0,
      h4_font_threshold = 0\<rparr>"

definition anchor_doc :: pdf where
  "anchor_doc = \<lparr>pages = [anchor_page]\<rparr>"

definition anchor_input :: input_doc where
  "anchor_input = \<lparr>doc_path = ''input/annual.pdf'', doc_file = Readable anchor_doc\<rparr>"

text \<open>The module as it would be with the two missing imports.\<close>

definition repaired_globals :: "string list" where
  "repaired_globals = ''re'' # ''pdfplumber'' # persona_analyst_globals"

text \<open>What identifies a section in the output: its document, its page and its title.\<close>

definition section_id :: "extracted_section \<Rightarrow> string \<times> int \<times> string" where
  "section_id s = (document s, page_number s, section_title s)"

text \<open>
  A word as \<^verbatim>\<open>extract_words\<close> returns it when no extra attributes are asked for, which
  is how ext2.py and ext3.py call it: it has a text and a position \<open>x0\<close>, and no
  \<open>size\<close>, \<open>y0\<close> or \<open>fontname\<close>.
\<close>

definition library_word :: "string \<Rightarrow> real \<Rightarrow> word" where
  "library_word t x =
     \<lparr>w_text = t, w_size = None, w_y0 = None, w_x0 = Some x, w_fontname = None\<rparr>"

text \<open>
  The first page of the scenario: characters at the sizes 14 and 10, and the words
  \<^verbatim>\<open>Annual\<close>, \<^verbatim>\<open>Report\<close>, \<^verbatim>\<open>2024\<close> of the two large rows and a word of body text,
  as the library returns them.
\<close>

definition plain_annual_page :: page where
  "plain_annual_page =
     \<lparr>page_chars = [mk_char ''A'' 14, mk_char ''R'' 14, mk_char ''b'' 10],
      words_y3 = [library_word ''Annual'' 72, library_word ''Report'' 72,
                  library_word ''2024'' 130, library_word ''body'' 72],
      words_x2y2 = [library_word ''Annual'' 72, library_word ''Report'' 72,
                    library_word ''2024'' 130, library_word ''body'' 72],
      text_lines = []\<rparr>"

definition plain_annual_doc :: pdf where
  "plain_annual_doc = \<lparr>pages = [plain_annual_page]\<rparr>"

section \<open>Evaluation rules\<close>

lemmas char_class_defs = is_space_def ws_chars_def is_digit_def is_upper_def is_lower_def
  upper_chars_def lower_chars_def

lemmas text_eval = char_class_defs clean_text_def strip_def collapse_ws_def isupper_def
  endswith_char_def split_ws_def lower_def lower_char_def

lemmas rx_eval = Plus_def Opt_def dollar_def match_dollar_def Chi_def lower_char_def
  char_class_defs

lemmas ext2_rx_defs = toc_rx_def revision_rx_def numbered_rx_def page_rx_def digits_rx_def
  h1_rx_def h2_rx_def h3_rx_def h4_rx_def

section \<open>The heading classifier of ext2.py\<close>

lemma bg_clean: "clean_text ''1.2.3 Background'' = ''1.2.3 Background''"
  by (simp add: text_eval)

lemma bg_words: "length (split_ws ''1.2.3 Background'') = 2"
  by (simp add: text_eval)

lemma bg_h4: "\<not> rmatch h4_rx ''1.2.3 Background''"
  by (simp add: h4_rx_def rx_eval)

lemma bg_h3: "rmatch h3_rx ''1.2.3 Background''"
  by (simp add: h3_rx_def rx_eval)

lemma bg_rules:
  "\<not> search_dollar toc_rx ''1.2.3 Background''"
  "\<not> match_dollar revision_rx ''1.2.3 Background''"
  "\<not> rmatch numbered_rx ''1.2.3 Background''"
  "\<not> fullmatch page_rx ''1.2.3 Background''"
  "\<not> fullmatch digits_rx ''1.2.3 Background''"
  "\<not> isupper ''1.2.3 Background''"
  by (simp_all add: ext2_rx_defs rx_eval isupper_def)

lemma bg_likely:
  "is_likely_heading ''1.2.3 Background'' sz b fs (length (split_ws ''1.2.3 Background''))"
  unfolding is_likely_heading_def bg_words using bg_rules by (simp add: endswith_char_def)

text \<open>
  C1. A line that passes the eight rejection rules and carries a number gets the level of
  its numbering pattern, whatever its boldness and font size; the style fallback decides
  only when no numbering pattern matches. The line \<^verbatim>\<open>1.2.3 Background\<close> is unchanged
  by cleaning and, when not bold, is classified H3 at every font size and under every
  font profile, so in particular below the H1 threshold.
\<close>

theorem numbering_precedes_style:
  "(is_likely_heading t sz b fs (length (split_ws t)) \<and> numbering_level t = Some lv
      \<longrightarrow> classify_line t sz b fs = Some lv)
   \<and> (is_likely_heading t sz b fs (length (split_ws t)) \<and> numbering_level t = None
      \<longrightarrow> classify_line t sz b fs = (if b \<or> isupper t then style_level sz fs else None))
   \<and> clean_text ''1.2.3 Background'' = ''1.2.3 Background''
   \<and> numbering_level ''1.2.3 Background'' = Some (H 3)
   \<and> classify_line ''1.2.3 Background'' sz False fs = Some (H 3)"
proof (intro conjI impI)
  show "clean_text ''1.2.3 Background'' = ''1.2.3 Background''" by (rule bg_clean)
  show "numbering_level ''1.2.3 Background'' = Some (H 3)"
    using bg_h4 bg_h3 by (simp add: numbering_level_def)
  show "classify_line ''1.2.3 Background'' sz False fs = Some (H 3)"
    using bg_likely[of sz False fs] bg_h4 bg_h3 by (simp add: classify_line_def assign_level_def)
next
  assume "is_likely_heading t sz b fs (length (split_ws t)) \<and> numbering_level t = Some lv"
  then show "classify_line t sz b fs = Some lv"
    by (auto simp: classify_line_def assign_level_def numbering_level_def split: if_splits)
next
  assume "is_likely_heading t sz b fs (length (split_ws t)) \<and> numbering_level t = None"
  then show "classify_line t sz b fs = (if b \<or> isupper t then style_level sz fs else None)"
    by (auto simp: classify_line_def assign_level_def numbering_level_def split: if_splits)
qed

lemma scope_words: "length (split_ws ''2.1 Scope'') = 2"
  by (simp add: text_eval)

lemma scope_rules:
  "\<not> search_dollar toc_rx ''2.1 Scope''"
  "\<not> match_dollar revision_rx ''2.1 Scope''"
  "\<not> rmatch numbered_rx ''2.1 Scope''"
  "\<not> fullmatch page_rx ''2.1 Scope''"
  "\<not> fullmatch digits_rx ''2.1 Scope''"
  "\<not> isupper ''2.1 Scope''"
  by (simp_all add: ext2_rx_defs rx_eval isupper_def)

lemma scope_patterns:
  "\<not> rmatch h4_rx ''2.1 Scope''" "\<not> rmatch h3_rx ''2.1 Scope''" "rmatch h2_rx ''2.1 Scope''"
  by (simp_all add: ext2_rx_defs rx_eval)

text \<open>
  The bold line \<^verbatim>\<open>2.1 Scope\<close> at size 10 passes the rules and matches the H2 pattern;
  its style alone would make it H3, and it is classified H2.
\<close>

theorem numbering_precedes_style_witness:
  "is_likely_heading ''2.1 Scope'' 10 True toc_stats (length (split_ws ''2.1 Scope''))
   \<and> numbering_level ''2.1 Scope'' = Some (H 2)
   \<and> style_level 10 toc_stats = Some (H 3)
   \<and> classify_line ''2.1 Scope'' 10 True toc_stats = Some (H 2)"
proof -
  have likely: "is_likely_heading ''2.1 Scope'' 10 True toc_stats (length (split_ws ''2.1 Scope''))"
    unfolding is_likely_heading_def scope_words using scope_rules by (simp add: endswith_char_def)
  have lvl: "numbering_level ''2.1 Scope'' = Some (H 2)"
    using scope_patterns by (simp add: numbering_level_def)
  have style: "style_level 10 toc_stats = Some (H 3)"
    by (simp add: style_level_def toc_stats_def)
  show ?thesis
    using likely lvl style numbering_precedes_style[of "''2.1 Scope''" 10 True toc_stats "H 2"]
    by simp
qed

section \<open>Table-of-contents rows in ext2.py\<close>

lemma toc_clean: "clean_text ''....... 42'' = ''. 42''"
  by (simp add: text_eval)

lemma toc_cleaned_words: "length (split_ws ''. 42'') = 2"
  by (simp add: text_eval)

lemma toc_cleaned_rules:
  "\<not> search_dollar toc_rx ''. 42''" "\<not> match_dollar revision_rx ''. 42''"
  "\<not> rmatch numbered_rx ''. 42''" "\<not> fullmatch page_rx ''. 42''"
  "\<not> fullmatch digits_rx ''. 42''" "\<not> isupper ''. 42''"
  by (simp_all add: ext2_rx_defs rx_eval isupper_def)

lemma toc_cleaned_patterns:
  "\<not> rmatch h4_rx ''. 42''" "\<not> rmatch h3_rx ''. 42''" "\<not> rmatch h2_rx ''. 42''"
  "\<not> rmatch h1_rx ''. 42''"
  by (simp_all add: ext2_rx_defs rx_eval)

lemma toc_first_char:
  "first_char (l_chars toc_line) =
     Some \<lparr>ch_text = ''.'', ch_size = Some 14, ch_fontname = Some ''Arial-BoldMT''\<rparr>"
  by (simp add: first_char_def toc_line_def text_eval)

lemma toc_bold: "bold_name (fontname_lower (Some ''Arial-BoldMT''))"
  by (simp add: bold_name_def fontname_lower_def text_eval)

lemma round2_14: "py_round2 14 = 14"
  by (simp add: py_round2_def py_round_def)

text \<open>Rule 2 does reject the row when it sees the text as it is on the page.\<close>

lemma toc_raw_rejected: "\<not> is_likely_heading ''....... 42'' 14 True toc_stats 2"
  by (simp add: is_likely_heading_def toc_rx_def rx_eval)

lemma collapse_run_in_run_head:
  "collapse_run True s = [] \<or> \<not> is_space (hd (collapse_run True s))"
  by (induction s) auto

lemma space_is_space: "is_space CHR '' ''"
  by (simp add: is_space_def ws_chars_def)

lemma collapse_run_distinct_adj:
  "distinct_adj s \<Longrightarrow> distinct_adj (collapse_run b s)"
proof (induction s arbitrary: b)
  case Nil
  show ?case by simp
next
  case (Cons c cs)
  from Cons.prems have tail: "distinct_adj cs" by (rule distinct_adj_ConsD)
  show ?case
  proof (cases "is_space c")
    case True
    show ?thesis
    proof (cases b)
      case True
      with \<open>is_space c\<close> tail Cons.IH show ?thesis by simp
    next
      case False
      have "collapse_run True cs = [] \<or> CHR '' '' \<noteq> hd (collapse_run True cs)"
        using collapse_run_in_run_head[of cs] space_is_space by auto
      with False \<open>is_space c\<close> tail Cons.IH[of True] show ?thesis
        by (simp add: distinct_adj_Cons)
    qed
  next
    case False
    have "collapse_run False cs = [] \<or> c \<noteq> hd (collapse_run False cs)"
    proof (cases cs)
      case Nil
      then show ?thesis by simp
    next
      case (Cons d ds)
      with Cons.prems have "c \<noteq> d" by simp
      with Cons False space_is_space show ?thesis by auto
    qed
    with False tail Cons.IH[of False] show ?thesis
      by (simp add: distinct_adj_Cons)
  qed
qed

lemma dropWhile_distinct_adj: "distinct_adj s \<Longrightarrow> distinct_adj (dropWhile P s)"
proof -
  assume "distinct_adj s"
  then have "distinct_adj (takeWhile P s @ dropWhile P s)" by simp
  then show ?thesis by (rule distinct_adj_appendD2)
qed

text \<open>The cleaned text never has the same character twice in a row.\<close>

lemma clean_text_distinct_adj: "distinct_adj (clean_text t)"
  by (simp add: clean_text_def strip_def collapse_ws_def dropWhile_distinct_adj
        collapse_run_distinct_adj)

lemma fullmatch_Zero: "\<not> fullmatch Zero s"
  by (induction s) auto

lemma fullmatch_Eps: "fullmatch Eps s = (s = [])"
  by (cases s) (auto simp: fullmatch_Zero)

lemma fullmatch_Cls: "fullmatch (Cls p) s = (\<exists>c. s = [c] \<and> p c)"
  by (cases s) (auto simp: fullmatch_Zero fullmatch_Eps)

lemma fullmatch_Alt: "fullmatch (Alt a b) s = (fullmatch a s \<or> fullmatch b s)"
  by (induction s arbitrary: a b) auto

lemma fullmatch_Seq:
  "fullmatch (Seq a b) s = (\<exists>u v. s = u @ v \<and> fullmatch a u \<and> fullmatch b v)"
proof (induction s arbitrary: a)
  case Nil
  show ?case by simp
next
  case (Cons c cs)
  have split: "(\<exists>u v. c # cs = u @ v \<and> fullmatch a u \<and> fullmatch b v)
      = ((nullable a \<and> fullmatch b (c # cs))
         \<or> (\<exists>u v. cs = u @ v \<and> fullmatch (deriv c a) u \<and> fullmatch b v))"
    (is "?L = ?R")
  proof
    assume ?L
    then obtain u v where uv: "c # cs = u @ v" "fullmatch a u" "fullmatch b v" by blast
    show ?R
    proof (cases u)
      case Nil
      with uv show ?thesis by simp
    next
      case (Cons d u')
      with uv have "cs = u' @ v" "fullmatch (deriv c a) u'" by simp_all
      with uv(3) show ?thesis by blast
    qed
  next
    assume ?R
    then show ?L
    proof
      assume "nullable a \<and> fullmatch b (c # cs)"
      then have "c # cs = [] @ (c # cs)" "fullmatch a []" "fullmatch b (c # cs)" by simp_all
      then show ?L by blast
    next
      assume "\<exists>u v. cs = u @ v \<and> fullmatch (deriv c a) u \<and> fullmatch b v"
      then obtain u v where "cs = u @ v" "fullmatch (deriv c a) u" "fullmatch b v" by blast
      then have "c # cs = (c # u) @ v" "fullmatch a (c # u)" "fullmatch b v" by simp_all
      then show ?L by blast
    qed
  qed
  show ?case unfolding split using Cons.IH[of "deriv c a"]
    by (auto simp: fullmatch_Alt)
qed

lemma search_dollar_suffix:
  "search_dollar r s \<Longrightarrow> \<exists>pre t. s = pre @ t \<and> fullmatch (dollar r) t"
proof (induction s)
  case Nil
  then show ?case by simp
next
  case (Cons c cs)
  from Cons.prems have "fullmatch (dollar r) (c # cs) \<or> search_dollar r cs" by simp
  then show ?case
  proof
    assume "fullmatch (dollar r) (c # cs)"
    then have "c # cs = [] @ (c # cs) \<and> fullmatch (dollar r) (c # cs)" by simp
    then show ?thesis by blast
  next
    assume "search_dollar r cs"
    with Cons.IH obtain pre t where "cs = pre @ t" "fullmatch (dollar r) t" by blast
    then have "c # cs = (c # pre) @ t \<and> fullmatch (dollar r) t" by simp
    then show ?thesis by blast
  qed
qed

lemma two_dots_prefix:
  "fullmatch (Seq (Seq Dot (Seq Dot r)) q) t \<Longrightarrow> \<exists>rest. t = CHR ''.'' # CHR ''.'' # rest"
  by (auto simp: fullmatch_Seq fullmatch_Cls)

lemma toc_needs_two_dots:
  "fullmatch (dollar toc_rx) t \<Longrightarrow> \<exists>rest. t = CHR ''.'' # CHR ''.'' # rest"
  unfolding dollar_def toc_rx_def by (rule two_dots_prefix) simp

lemma toc3_needs_two_dots:
  "fullmatch (dollar toc3_rx) t \<Longrightarrow> \<exists>rest. t = CHR ''.'' # CHR ''.'' # rest"
  unfolding dollar_def toc3_rx_def by (rule two_dots_prefix) simp

lemma no_match_without_two_dots:
  assumes "distinct_adj s" and "\<And>t. fullmatch (dollar r) t \<Longrightarrow> \<exists>rest. t = CHR ''.'' # CHR ''.'' # rest"
  shows "\<not> search_dollar r s"
proof
  assume "search_dollar r s"
  then obtain pre t where s: "s = pre @ t" and "fullmatch (dollar r) t"
    using search_dollar_suffix by blast
  with assms(2) obtain rest where "t = CHR ''.'' # CHR ''.'' # rest" by blast
  with s assms(1) have "distinct_adj (CHR ''.'' # CHR ''.'' # rest)"
    using distinct_adj_appendD2 by blast
  then show False by simp
qed

text \<open>
  After cleaning, the table-of-contents rule of ext2.py (rule 2) and that of ext3.py
  (rule 3) match no text at all.
\<close>

lemma toc_rule_never_fires_on_cleaned_text:
  "\<not> search_dollar toc_rx (clean_text t)" "\<not> search_dollar toc3_rx (clean_text t)"
  using no_match_without_two_dots[OF clean_text_distinct_adj] toc_needs_two_dots
    toc3_needs_two_dots by blast+

text \<open>
  C3. The claim fails on the code: the loop cleans the line before it classifies it, the
  cleaning collapses the dot leader \<^verbatim>\<open>.......\<close> to a single dot, and rule 2, which
  wants four dots, no longer fires. The bold row \<^verbatim>\<open>....... 42\<close> at the largest size
  enters the outline as the H1 heading \<^verbatim>\<open>. 42\<close>.
\<close>

theorem toc_row_accepted_after_cleaning:
  "heading_of_line toc_stats 1 toc_line = Some \<lparr>e_level = H 1, e_text = ''. 42'', e_page = 1\<rparr>"
proof -
  have "is_likely_heading ''. 42'' 14 True toc_stats (length (split_ws ''. 42''))"
    unfolding is_likely_heading_def toc_cleaned_words using toc_cleaned_rules
    by (simp add: endswith_char_def)
  then have "classify_line ''. 42'' 14 True toc_stats = Some (H 1)"
    using toc_cleaned_patterns
    by (simp add: classify_line_def assign_level_def style_level_def toc_stats_def)
  then show ?thesis
    using toc_first_char toc_bold
    by (simp add: heading_of_line_def toc_line_def toc_clean get0_def round2_14)
qed

section \<open>Documents without pages\<close>

text \<open>
  C10. A document that opens and has no page yields the title \<^verbatim>\<open>Empty Document\<close> and
  an empty outline, in ext2.py and in ext3.py; the title differs from the two other
  sentinel titles.
\<close>

theorem empty_document_sentinel:
  "extract_outline_ext2 (Readable (doc\<lparr>pages := []\<rparr>)) = \<lparr>title = ''Empty Document'', outline = []\<rparr>
   \<and> extract_outline_ext3 (Readable (doc\<lparr>pages := []\<rparr>)) = \<lparr>title = ''Empty Document'', outline = []\<rparr>
   \<and> ''Empty Document'' \<noteq> ''Untitled Document''
   \<and> ''Empty Document'' \<noteq> ''Error Processing Document''"
  by (simp add: extract_outline_ext2_def extract_outline_ext3_def)

section \<open>Deduplication\<close>

lemma dedup_loop_avoids_seen: "entry_key e \<in> seen \<Longrightarrow> e \<notin> set (dedup_loop seen es)"
  by (induction es arbitrary: seen) auto

lemma dedup_loop_distinct: "distinct (map entry_key (dedup_loop seen es))"
proof (induction es arbitrary: seen)
  case Nil
  show ?case by simp
next
  case (Cons e es)
  have "entry_key e \<notin> entry_key ` set (dedup_loop (insert (entry_key e) seen) es)"
    using dedup_loop_avoids_seen[of _ "insert (entry_key e) seen" es] by auto
  with Cons show ?case by simp
qed

lemma dedup_loop_keys: "entry_key ` set (dedup_loop seen es) = entry_key ` set es - seen"
  by (induction es arbitrary: seen) auto

lemma dedup_loop_first:
  "dedup_loop seen es =
     map ((!) es) (filter (\<lambda>i. entry_key (es ! i) \<notin> seen \<union> entry_key ` set (take i es))
                          [0 ..< length es])"
proof (induction es arbitrary: seen)
  case Nil
  show ?case by simp
next
  case (Cons e es)
  have shift: "[0 ..< length (e # es)] = 0 # map Suc [0 ..< length es]"
    by (simp add: upt_conv_Cons map_Suc_upt del: upt_Suc)
  have tail: "map ((!) (e # es))
                (filter (\<lambda>i. entry_key ((e # es) ! i) \<notin> seen \<union> entry_key ` set (take i (e # es)))
                        (map Suc [0 ..< length es]))
              = dedup_loop (insert (entry_key e) seen) es"
    unfolding Cons.IH[of "insert (entry_key e) seen"]
    by (simp add: filter_map comp_def conj_commute conj_left_commute)
  show ?case
  proof (cases "entry_key e \<in> seen")
    case True
    then have same: "insert (entry_key e) seen = seen" by auto
    show ?thesis unfolding shift using True tail by (simp add: same)
  next
    case False
    show ?thesis unfolding shift using False tail by simp
  qed
qed

lemma outline_ext2_distinct: "distinct (map entry_key (outline (extract_outline_ext2 r)))"
  by (simp add: extract_outline_ext2_def dedup_outline_def dedup_loop_distinct Let_def
           split: pdf_open.splits list.splits)

lemma outline_ext3_distinct: "distinct (map entry_key (outline (extract_outline_ext3 r)))"
  by (simp add: extract_outline_ext3_def dedup_outline_def dedup_loop_distinct Let_def
           split: pdf_open.splits list.splits)

text \<open>
  C6. In the deduplicated outline no two entries have the same lowercased text and page.
  The entries kept are exactly those whose key does not occur earlier in the list, in
  their order, so the first occurrence stays and a later one on the same page goes. Every
  key of the input is still there, so the same text on another page keeps its entry. The
  outlines that ext2.py and ext3.py return have the uniqueness property for every input.
\<close>

theorem outline_keys_unique:
  "distinct (map entry_key (dedup_outline es))
   \<and> dedup_outline es =
       map ((!) es) (filter (\<lambda>i. entry_key (es ! i) \<notin> entry_key ` set (take i es))
                            [0 ..< length es])
   \<and> entry_key ` set (dedup_outline es) = entry_key ` set es
   \<and> distinct (map entry_key (outline (extract_outline_ext2 r)))
   \<and> distinct (map entry_key (outline (extract_outline_ext3 r)))"
proof (intro conjI)
  show "distinct (map entry_key (dedup_outline es))"
    unfolding dedup_outline_def by (rule dedup_loop_distinct)
  show "dedup_outline es =
          map ((!) es) (filter (\<lambda>i. entry_key (es ! i) \<notin> entry_key ` set (take i es))
                               [0 ..< length es])"
    unfolding dedup_outline_def dedup_loop_first[of "{}" es] by simp
  show "entry_key ` set (dedup_outline es) = entry_key ` set es"
    unfolding dedup_outline_def dedup_loop_keys by simp
  show "distinct (map entry_key (outline (extract_outline_ext2 r)))"
    by (rule outline_ext2_distinct)
  show "distinct (map entry_key (outline (extract_outline_ext3 r)))"
    by (rule outline_ext3_distinct)
qed

section \<open>Title extraction in ext2.py\<close>

lemma dict_get_append:
  "dict_get (dict_append d k v) y = (if y = k then dict_get d k @ [v] else dict_get d y)"
proof (cases "k \<in> set (map fst d)")
  case True
  have "map_of (map (\<lambda>(k', vs). if k' = k then (k', vs @ [v]) else (k', vs)) d) y
          = (if y = k then map_option (\<lambda>vs. vs @ [v]) (map_of d y) else map_of d y)"
    by (induction d) auto
  moreover from True have "map_of d k \<noteq> None"
    by (simp add: map_of_eq_None_iff)
  ultimately show ?thesis using True
    by (auto simp: dict_get_def dict_append_def split: option.splits)
next
  case False
  then have "map_of d k = None" by (simp add: map_of_eq_None_iff)
  with False show ?thesis
    by (auto simp: dict_get_def dict_append_def map_add_def split: option.splits)
qed

lemma dict_append_fst:
  "map fst (dict_append d k v) = (if k \<in> set (map fst d) then map fst d else map fst d @ [k])"
proof -
  have "map fst (map (\<lambda>(k', vs). if k' = k then (k', vs @ [v]) else (k', vs)) d) = map fst d"
    by (induction d) auto
  then show ?thesis by (simp add: dict_append_def)
qed

lemma dict_append_keys: "set (map fst (dict_append d k v)) = insert k (set (map fst d))"
  unfolding dict_append_fst by auto

lemma dict_append_distinct: "distinct (map fst d) \<Longrightarrow> distinct (map fst (dict_append d k v))"
  by (simp add: dict_append_fst)

lemma group_loop_get:
  "dict_get (foldl (\<lambda>d x. if P x then dict_append d (k x) (v x) else d) d xs) y
     = dict_get d y @ map v (filter (\<lambda>x. P x \<and> k x = y) xs)"
  by (induction xs arbitrary: d) (auto simp: dict_get_append)

lemma group_loop_keys:
  "set (map fst (foldl (\<lambda>d x. if P x then dict_append d (k x) (v x) else d) d xs))
     = set (map fst d) \<union> k ` {x \<in> set xs. P x}"
  by (induction xs arbitrary: d) (auto simp: dict_append_keys simp del: set_map)

lemma group_loop_distinct:
  "distinct (map fst d) \<Longrightarrow>
   distinct (map fst (foldl (\<lambda>d x. if P x then dict_append d (k x) (v x) else d) d xs))"
  by (induction xs arbitrary: d) (auto simp: dict_append_distinct)

lemma sorted_keys_unique:
  assumes "distinct ks" "set ks = set ls"
  shows "sort ks = sort (remdups ls)"
proof -
  have "sorted (sort ks)" "distinct (sort ks)" "set (sort ks) = set ls"
    using assms by simp_all
  moreover have "sorted (sort (remdups ls))" "distinct (sort (remdups ls))"
    "set (sort (remdups ls)) = set ls"
    by simp_all
  ultimately show ?thesis
    by (metis sorted_distinct_set_unique)
qed

lemma dict_get_empty: "dict_get [] y = []"
  by (simp add: dict_get_def)

lemma title_rows_refine:
  "map (\<lambda>y. dict_get (lines_with_max_font m ws) y) (sort (map fst (lines_with_max_font m ws)))
     = title_rows m ws"
proof -
  let ?P = "\<lambda>w. \<bar>get0 (w_size w) - m\<bar> < 0.1"
  let ?k = "\<lambda>w. py_round (get0 (w_y0 w))"
  have get: "dict_get (lines_with_max_font m ws) y
               = map w_text (filter (\<lambda>w. word_row w = y) (max_font_words m ws))" for y
    unfolding lines_with_max_font_def group_loop_get[of ?P ?k w_text "[]" ws y]
    by (simp add: dict_get_empty max_font_words_def word_row_def conj_commute)
  have "distinct (map fst (lines_with_max_font m ws))"
    unfolding lines_with_max_font_def by (rule group_loop_distinct) simp
  moreover have "set (map fst (lines_with_max_font m ws)) = set (map word_row (max_font_words m ws))"
    unfolding lines_with_max_font_def group_loop_keys[of ?P ?k w_text "[]" ws]
    by (auto simp: max_font_words_def word_row_def)
  ultimately have "sort (map fst (lines_with_max_font m ws))
                     = sort (remdups (map word_row (max_font_words m ws)))"
    by (rule sorted_keys_unique)
  then show ?thesis by (simp add: title_rows_def get)
qed

lemma title_rows_empty: "lines_with_max_font m ws = [] \<Longrightarrow> title_rows m ws = []"
  using title_rows_refine[of m ws] by simp

lemma clean_text_empty: "clean_text [] = []"
  by (simp add: text_eval)

lemma cleaned_title_ext2_rows:
  "cleaned_title_ext2 m ws =
     (if 0 < m then clean_text (join_sp (map join_sp (take 3 (title_rows m ws)))) else [])"
proof (cases "0 < m \<and> lines_with_max_font m ws \<noteq> []")
  case True
  have "map (\<lambda>y. join_sp (dict_get (lines_with_max_font m ws) y))
            (take 3 (sort (map fst (lines_with_max_font m ws))))
          = map join_sp (take 3 (title_rows m ws))"
    unfolding title_rows_refine[symmetric] by (simp add: take_map comp_def)
  with True show ?thesis by (simp add: cleaned_title_ext2_def Let_def)
next
  case False
  then show ?thesis
    by (auto simp: cleaned_title_ext2_def Let_def title_rows_empty clean_text_empty)
qed

text \<open>
  Words that carried a size and a \<open>y0\<close>: the rows are found, and the cleaning removes
  the doubled letter of \<^verbatim>\<open>Annual\<close>.
\<close>

lemma annual_stats: "h1_font_threshold (font_stats_ext2 [annual_page]) = 14"
  by (simp add: font_stats_ext2_def sorted_sizes_ext2_def annual_page_def mk_char_def get0_def
        py_round2_def py_round_def nth_or0_def Let_def)

lemma annual_rows: "title_rows 14 (words_y3 annual_page) = [[''Annual''], [''Report'', ''2024'']]"
  by (simp add: title_rows_def max_font_words_def word_row_def annual_page_def mk_word_def
        get0_def py_round_def)

lemma annual_clean: "clean_text ''Annual Report 2024'' = ''Anual Report 2024''"
  by (simp add: text_eval)

lemma annual_title: "title (extract_outline_ext2 (Readable annual_doc)) = ''Anual Report 2024''"
  by (simp add: extract_outline_ext2_def annual_doc_def annual_stats extract_title_ext2_def
        cleaned_title_ext2_rows annual_rows annual_clean title_fallback_def Let_def)

lemma sizeless_lines_empty:
  assumes "\<forall>w \<in> set ws. w_size w = None" and "0.1 \<le> m"
  shows "foldl (\<lambda>d w. if \<bar>get0 (w_size w) - m\<bar> < 0.1
                        then dict_append d (py_round (get0 (w_y0 w))) (w_text w) else d) d ws = d"
  using assms by (induction ws arbitrary: d) (auto simp: get0_def)

text \<open>
  Words without a size are never within 0.1 of a largest size of 0.1 or more, so ext2.py
  finds no title word.
\<close>

lemma sizeless_words_no_title:
  assumes "\<forall>w \<in> set ws. w_size w = None" and "0.1 \<le> m"
  shows "cleaned_title_ext2 m ws = []" and "extract_title_ext2 m ws = ''Untitled Document''"
proof -
  have "lines_with_max_font m ws = []"
    unfolding lines_with_max_font_def by (rule sizeless_lines_empty[OF assms])
  then show "cleaned_title_ext2 m ws = []"
    by (simp add: cleaned_title_ext2_def)
  then show "extract_title_ext2 m ws = ''Untitled Document''"
    by (simp add: extract_title_ext2_def title_fallback_def)
qed

lemma plain_annual_stats: "h1_font_threshold (font_stats_ext2 [plain_annual_page]) = 14"
  by (simp add: font_stats_ext2_def sorted_sizes_ext2_def plain_annual_page_def mk_char_def
        get0_def py_round2_def py_round_def nth_or0_def Let_def)

lemma plain_annual_sizeless:
  "\<forall>w \<in> set (words_y3 plain_annual_page). w_size w = None"
  "\<forall>w \<in> set (words_x2y2 plain_annual_page). w_size w = None"
  by (simp_all add: plain_annual_page_def library_word_def)

text \<open>
  C7. The claim fails on the code. ext2.py asks the library for the words of the first page
  without their attributes, so no word carries a size or a \<open>y0\<close>, and
  \<^verbatim>\<open>word.get('size', 0)\<close> is 0 for every word. On the first page of the scenario,
  with the largest size 14 on the rows \<^verbatim>\<open>Annual\<close> and \<^verbatim>\<open>Report 2024\<close>, no word is
  within 0.1 of that size, no row is kept, and the title is \<^verbatim>\<open>Untitled Document\<close>.
\<close>

theorem annual_title_untitled:
  "h1_font_threshold (font_stats_ext2 (pages plain_annual_doc)) = 14
   \<and> cleaned_title_ext2 14 (words_y3 plain_annual_page) = []
   \<and> title (extract_outline_ext2 (Readable plain_annual_doc)) = ''Untitled Document''"
proof -
  have m: "(0.1::real) \<le> 14" by simp
  have c: "cleaned_title_ext2 14 (words_y3 plain_annual_page) = []"
    by (rule sizeless_words_no_title(1)[OF plain_annual_sizeless(1) m])
  have t: "extract_title_ext2 14 (words_y3 plain_annual_page) = ''Untitled Document''"
    by (rule sizeless_words_no_title(2)[OF plain_annual_sizeless(1) m])
  show ?thesis
    using c t
    by (simp add: extract_outline_ext2_def plain_annual_doc_def plain_annual_stats Let_def)
qed

section \<open>The title fallback in ext2.py and ext3.py\<close>

lemma py_round_int: "py_round (of_int n) = n"
  by (simp add: py_round_def)

lemma py_round_numeral [simp]: "py_round (numeral n) = numeral n"
  using py_round_int[of "numeral n"] by simp

text \<open>
  Words that carried a size: ext3.py would return a title of two characters.
\<close>

lemma short_styles: "analyze_document_styles [short_page] = (10, [20])"
  by (simp add: analyze_document_styles_def font_sizes_ext3_def short_page_def mk_word_def
        get0_def count_add_def)

lemma short_clean: "clean_text ''Hi'' = ''Hi''"
  by (simp add: text_eval)

lemma short_cleaned_ext3: "cleaned_title_ext3 [20] (words_y3 short_page) = ''Hi''"
  by (simp add: cleaned_title_ext3_def title_lines_ext3_def short_page_def mk_word_def get0_def
        dict_append_def dict_get_def short_clean)

lemma short_title_ext3: "title (extract_outline_ext3 (Readable short_doc)) = ''Hi''"
  by (simp add: extract_outline_ext3_def short_doc_def short_styles extract_title_ext3_def
        short_cleaned_ext3)

lemma short_stats: "h1_font_threshold (font_stats_ext2 [short_page]) = 20"
  by (simp add: font_stats_ext2_def sorted_sizes_ext2_def short_page_def mk_char_def get0_def
        py_round2_def nth_or0_def Let_def)

lemma short_cleaned_ext2: "cleaned_title_ext2 20 (words_y3 short_page) = ''Hi''"
  by (simp add: cleaned_title_ext2_rows title_rows_def max_font_words_def word_row_def
        short_page_def mk_word_def get0_def short_clean)













section \<open>Ranking\<close>

lemma boundaries_follow_outline:
  "map (\<lambda>b. (b_page b, b_title b)) (section_boundaries es) = map (\<lambda>e. (int (e_page e), e_text e)) es"
  by (induction es rule: section_boundaries.induct) auto

lemma sections_follow_boundaries:
  "sections_of_doc g d bs = Inr secs \<Longrightarrow>
   map section_id secs = map (\<lambda>b. (basename (doc_path d), b_page b, b_title b)) bs"
  by (induction bs arbitrary: secs) (auto simp: section_id_def split: sum.splits)

text \<open>
  The sections reach the ranking step document by document, in the order of the input
  paths, and within a document in the order of its outline.
\<close>

lemma gather_sections_order:
  "gather_sections g extract docs = Inr secs \<Longrightarrow>
   map section_id secs =
     concat (map (\<lambda>d. map (\<lambda>e. (basename (doc_path d), int (e_page e), e_text e))
                          (outline (extract (doc_file d)))) docs)"
proof (induction docs arbitrary: secs)
  case Nil
  then show ?case by simp
next
  case (Cons d ds)
  from Cons.prems obtain here rest where
    here: "sections_of_doc g d (section_boundaries (outline (extract (doc_file d)))) = Inr here"
    and rest: "gather_sections g extract ds = Inr rest" and secs: "secs = here @ rest"
    by (auto split: sum.splits)
  have "map section_id here =
          map (\<lambda>b. (basename (doc_path d), b_page b, b_title b))
              (section_boundaries (outline (extract (doc_file d))))"
    using here by (rule sections_follow_boundaries)
  also have "\<dots> = map (\<lambda>(p, t). (basename (doc_path d), p, t))
                     (map (\<lambda>b. (b_page b, b_title b))
                          (section_boundaries (outline (extract (doc_file d)))))"
    by (simp add: comp_def)
  also have "\<dots> = map (\<lambda>e. (basename (doc_path d), int (e_page e), e_text e))
                     (outline (extract (doc_file d)))"
    unfolding boundaries_follow_outline by (simp add: comp_def)
  finally show ?case using Cons.IH[OF rest] secs by simp
qed

lemma assign_ranks_scored:
  "length secs \<le> length sims \<Longrightarrow> assign_ranks secs sims = Inr (scored secs sims)"
proof (induction secs sims rule: assign_ranks.induct)
  case (1 sims)
  show ?case by (simp add: scored_def)
next
  case (2 s ss)
  then show ?case by simp
next
  case (3 s ss x xs)
  then show ?case by (simp add: scored_def)
qed

lemma assign_ranks_short:
  "length sims < length secs \<Longrightarrow> assign_ranks secs sims = Inl IndexError"
  by (induction secs sims rule: assign_ranks.induct) auto

lemma sort_desc_sorted:
  "sorted_wrt (\<lambda>a b. importance_rank b \<le> importance_rank a) (sort_by_rank_desc xs)"
proof -
  have "sorted (map (\<lambda>s. - importance_rank s) (sort_by_rank_desc xs))"
    unfolding sort_by_rank_desc_def by (rule sorted_sort_key)
  then show ?thesis by (simp add: sorted_map)
qed

lemma sort_desc_mset: "mset (sort_by_rank_desc xs) = mset xs"
  by (simp add: sort_by_rank_desc_def)

lemma sort_desc_stable:
  "filter (\<lambda>s. importance_rank s = k) (sort_by_rank_desc xs) = filter (\<lambda>s. importance_rank s = k) xs"
proof -
  have "filter (\<lambda>s. - importance_rank s = - k) (sort_key (\<lambda>s. - importance_rank s) xs)
          = filter (\<lambda>s. - importance_rank s = - k) xs"
    by (rule sort_key_stable)
  then show ?thesis by (simp add: sort_by_rank_desc_def)
qed

text \<open>
  C5. When the similarity array has one score per section, the ranking step returns the
  scored sections in descending order of score; the result is a rearrangement of the
  scored sections, and for every score the sections with that score appear in their input
  order. These three properties fix the output, so equal inputs give equal orders.
\<close>

theorem ranking_descending_stable:
  "length sims = length secs \<longrightarrow>
     rank_sections secs sims = Inr (sort_by_rank_desc (scored secs sims))
     \<and> sorted_wrt (\<lambda>a b. importance_rank b \<le> importance_rank a)
          (sort_by_rank_desc (scored secs sims))
     \<and> mset (sort_by_rank_desc (scored secs sims)) = mset (scored secs sims)
     \<and> (\<forall>k. filter (\<lambda>s. importance_rank s = k) (sort_by_rank_desc (scored secs sims))
             = filter (\<lambda>s. importance_rank s = k) (scored secs sims))"
  by (simp add: rank_sections_def assign_ranks_scored sort_desc_sorted sort_desc_mset
        sort_desc_stable)

lemma three_sorted:
  "sort_by_rank_desc (scored three_sections [0.5, 0.7, 0.5]) =
     [(mk_section ''a.pdf'' 2 ''Scope'' ''y'')\<lparr>importance_rank := 0.7\<rparr>,
      (mk_section ''a.pdf'' 1 ''Intro'' ''x'')\<lparr>importance_rank := 0.5\<rparr>,
      (mk_section ''b.pdf'' 1 ''Goals'' ''z'')\<lparr>importance_rank := 0.5\<rparr>]"
  by (simp add: scored_def three_sections_def sort_by_rank_desc_def mk_section_def)

text \<open>
  Three sections scored 0.5, 0.7 and 0.5: the second comes first, the tied first and
  third keep their input order.
\<close>

theorem ranking_descending_stable_witness:
  "length [0.5, 0.7, 0.5 :: real] = length three_sections
   \<and> rank_sections three_sections [0.5, 0.7, 0.5] =
       Inr [(mk_section ''a.pdf'' 2 ''Scope'' ''y'')\<lparr>importance_rank := 0.7\<rparr>,
            (mk_section ''a.pdf'' 1 ''Intro'' ''x'')\<lparr>importance_rank := 0.5\<rparr>,
            (mk_section ''b.pdf'' 1 ''Goals'' ''z'')\<lparr>importance_rank := 0.5\<rparr>]"
proof -
  have len: "length [0.5, 0.7, 0.5 :: real] = length three_sections"
    by (simp add: three_sections_def)
  have r: "rank_sections three_sections [0.5, 0.7, 0.5] =
             Inr (sort_by_rank_desc (scored three_sections [0.5, 0.7, 0.5]))"
    using ranking_descending_stable[of "[0.5, 0.7, 0.5]" three_sections] len by blast
  show ?thesis unfolding r three_sorted using len by blast
qed

section \<open>Refinement of the ranked sections\<close>

lemma relevant_jaccard: "relevant qk sk = (0.05 < jaccard qk sk)"
proof (cases "card (set qk \<union> set sk) = 0")
  case True
  then show ?thesis by (simp add: relevant_def jaccard_def Let_def)
next
  case False
  then have pos: "0 < card (set qk \<union> set sk)" by (simp only: neq0_conv)
  show ?thesis unfolding relevant_def jaccard_def Let_def using pos by blast
qed

lemma select_none:
  "\<forall>sent \<in> set sents. \<not> relevant qk (content_lemmas (s_tokens sent)) \<Longrightarrow>
   select_sentences qk sents [] = []"
  by (induction sents) auto

lemma refine_loop_window:
  "refine_loop nlp qk i secs = List.map_filter (refine_section nlp qk) (take (5 - i) secs)"
proof (induction secs arbitrary: i)
  case Nil
  show ?case by simp
next
  case (Cons sec secs)
  show ?case
  proof (cases "5 \<le> i")
    case True
    then show ?thesis by simp
  next
    case False
    then have "5 - i = Suc (5 - Suc i)" by simp
    then show ?thesis using False Cons[of "Suc i"]
      by (simp split: option.splits)
  qed
qed

lemma map_filter_append:
  "List.map_filter f (xs @ ys) = List.map_filter f xs @ List.map_filter f ys"
  by (simp add: List.map_filter_def)

text \<open>
  C9. For a section none of whose sentences has a Jaccard similarity above 0.05 with the
  query lemmas, the refiner retains no sentence and emits no entry: the output of the
  loop over the ranked sections is made of the entries of the other sections among the
  first five only.
\<close>

theorem irrelevant_section_absent:
  "(\<forall>sent \<in> set (nlp (full_text_content sec)).
       \<not> 0.05 < jaccard qk (content_lemmas (s_tokens sent)))
   \<longrightarrow> select_sentences qk (nlp (full_text_content sec)) [] = []
       \<and> refine_section nlp qk sec = None
       \<and> refine_loop nlp qk 0 (pre @ sec # post) =
           List.map_filter (refine_section nlp qk) (take 5 pre)
           @ List.map_filter (refine_section nlp qk) (take (4 - length pre) post)"
proof (intro impI)
  assume a: "\<forall>sent \<in> set (nlp (full_text_content sec)).
       \<not> 0.05 < jaccard qk (content_lemmas (s_tokens sent))"
  then have sel: "select_sentences qk (nlp (full_text_content sec)) [] = []"
    by (intro select_none) (simp add: relevant_jaccard)
  then have none: "refine_section nlp qk sec = None"
    by (simp add: refine_section_def)
  have "take 5 (pre @ sec # post) = take 5 pre @ take (5 - length pre) (sec # post)"
    by simp
  moreover have "List.map_filter (refine_section nlp qk) (take (5 - length pre) (sec # post))
                   = List.map_filter (refine_section nlp qk) (take (4 - length pre) post)"
  proof (cases "length pre < 5")
    case True
    then have "5 - length pre = Suc (4 - length pre)" by simp
    then show ?thesis using none by simp
  next
    case False
    then show ?thesis by simp
  qed
  ultimately have "refine_loop nlp qk 0 (pre @ sec # post) =
           List.map_filter (refine_section nlp qk) (take 5 pre)
           @ List.map_filter (refine_section nlp qk) (take (4 - length pre) post)"
    by (simp add: refine_loop_window map_filter_append del: take_append)
  with sel none show "select_sentences qk (nlp (full_text_content sec)) [] = []
       \<and> refine_section nlp qk sec = None
       \<and> refine_loop nlp qk 0 (pre @ sec # post) =
           List.map_filter (refine_section nlp qk) (take 5 pre)
           @ List.map_filter (refine_section nlp qk) (take (4 - length pre) post)"
    by simp
qed

lemma ml_tokens: "split_ws ''learning pipelines'' = [''learning'', ''pipelines'']"
  by (simp add: text_eval)

lemma cooking_tokens: "split_ws ''cooking recipes'' = [''cooking'', ''recipes'']"
  by (simp add: text_eval)

lemma cooking_jaccard:
  "jaccard [''learning'', ''pipelines'']
     (content_lemmas [mk_token ''cooking'', mk_token ''recipes'']) = 0"
  by (simp add: jaccard_def content_lemmas_def mk_token_def)

lemma cooking_not_relevant:
  "\<not> 0.05 < jaccard [''learning'', ''pipelines'']
              (content_lemmas [mk_token ''cooking'', mk_token ''recipes''])"
  unfolding cooking_jaccard by simp

lemma ml_relevant:
  "relevant [''learning'', ''pipelines'']
     (content_lemmas (map mk_token [''learning'', ''pipelines'']))"
  by (simp add: relevant_def content_lemmas_def mk_token_def)

lemma ml_strip: "strip ''learning pipelines'' = ''learning pipelines''"
  by (simp add: text_eval)

lemma ml_refined:
  "refine_section word_nlp [''learning'', ''pipelines''] ml_section =
     Some \<lparr>r_document = ''a.pdf'', r_page_number = 1, refined_text = ''learning pipelines''\<rparr>"
  using ml_relevant
  by (simp add: refine_section_def ml_section_def mk_section_def word_nlp_def ml_tokens ml_strip)

text \<open>
  With the query lemmas \<^verbatim>\<open>learning\<close> and \<^verbatim>\<open>pipelines\<close>, the section about
  cooking has Jaccard similarity 0 and is absent; the section before it is refined.
\<close>

theorem irrelevant_section_absent_witness:
  "jaccard [''learning'', ''pipelines'']
     (content_lemmas (map mk_token (split_ws (full_text_content cooking_section)))) = 0
   \<and> refine_section word_nlp [''learning'', ''pipelines''] cooking_section = None
   \<and> refine_loop word_nlp [''learning'', ''pipelines''] 0 [ml_section, cooking_section] =
       [\<lparr>r_document = ''a.pdf'', r_page_number = 1, refined_text = ''learning pipelines''\<rparr>]"
proof -
  have body: "full_text_content cooking_section = ''cooking recipes''"
    by (simp add: cooking_section_def mk_section_def)
  have hyp: "\<forall>sent \<in> set (word_nlp (full_text_content cooking_section)).
               \<not> 0.05 < jaccard [''learning'', ''pipelines''] (content_lemmas (s_tokens sent))"
    using cooking_not_relevant by (simp add: body word_nlp_def cooking_tokens)
  from irrelevant_section_absent[of word_nlp cooking_section "[''learning'', ''pipelines'']"
         "[ml_section]" "[]"] hyp
  have concl: "refine_section word_nlp [''learning'', ''pipelines''] cooking_section = None
      \<and> refine_loop word_nlp [''learning'', ''pipelines''] 0 ([ml_section] @ cooking_section # []) =
           List.map_filter (refine_section word_nlp [''learning'', ''pipelines'']) (take 5 [ml_section])
           @ List.map_filter (refine_section word_nlp [''learning'', ''pipelines''])
               (take (4 - length [ml_section]) [])"
    by blast
  then have loop: "refine_loop word_nlp [''learning'', ''pipelines''] 0 [ml_section, cooking_section] =
       [\<lparr>r_document = ''a.pdf'', r_page_number = 1, refined_text = ''learning pipelines''\<rparr>]"
    by (simp add: ml_refined del: refine_loop.simps)
  have "jaccard [''learning'', ''pipelines'']
     (content_lemmas (map mk_token (split_ws (full_text_content cooking_section)))) = 0"
    by (simp add: body cooking_tokens cooking_jaccard)
  with concl loop show ?thesis by blast
qed

section \<open>Section text and the missing anchor\<close>

text \<open>
  In the module as it is, \<^verbatim>\<open>re\<close> is not bound, so every call that gets past the
  \<^verbatim>\<open>try\<close> statement raises.
\<close>

lemma section_text_always_raises:
  "get_text_content_for_section persona_analyst_globals file pn t np nt = Inl (NameError ''re'')"
  by (simp add: get_text_content_for_section_def persona_analyst_globals_def)

lemma scan_lines_no_anchor:
  "\<forall>l \<in> set ls. \<not> contains t (strip (l_text l)) \<Longrightarrow>
   scan_lines t np nt idx False ls parts = parts"
  by (induction ls) auto

lemma py_nth_member: "py_nth xs i = Some x \<Longrightarrow> x \<in> set xs"
  by (auto simp: py_nth_def Let_def split: if_splits)

lemma scan_pages_no_anchor:
  "\<forall>p \<in> set ps. \<forall>l \<in> set (text_lines p). \<not> contains t (strip (l_text l)) \<Longrightarrow>
   scan_pages ps t np nt idxs parts = parts"
proof (induction idxs)
  case Nil
  show ?case by simp
next
  case (Cons idx idxs)
  show ?case
  proof (cases "py_nth ps idx")
    case None
    then show ?thesis by simp
  next
    case (Some p)
    then have "p \<in> set ps" by (rule py_nth_member)
    with Cons.prems have "scan_lines t np nt idx False (text_lines p) parts = parts"
      by (intro scan_lines_no_anchor) simp
    with Some Cons show ?thesis by (simp add: Let_def)
  qed
qed

text \<open>
  What the function is written to do: in a module that binds \<^verbatim>\<open>re\<close>, a section whose
  title is in no line of the document gets the empty body, without an error.
\<close>

lemma missing_anchor_empty_when_re_bound:
  assumes "''re'' \<in> set g"
    and "\<forall>p \<in> set (pages doc). \<forall>l \<in> set (text_lines p). \<not> contains t (strip (l_text l))"
  shows "get_text_content_for_section g (Readable doc) pn t np nt = Inr []"
  using assms
  by (simp add: get_text_content_for_section_def scan_pages_no_anchor text_eval)

lemma gather_raises:
  "outline (extract (doc_file d)) \<noteq> [] \<Longrightarrow>
   gather_sections persona_analyst_globals extract (d # ds) = Inl (NameError ''re'')"
proof -
  assume "outline (extract (doc_file d)) \<noteq> []"
  then obtain b bs where "section_boundaries (outline (extract (doc_file d))) = b # bs"
    by (cases "outline (extract (doc_file d))" rule: section_boundaries.cases) auto
  then show ?thesis by (simp add: section_text_always_raises)
qed

lemma anchor_font_stats: "font_stats_ext2 [anchor_page] = anchor_stats"
  by (simp add: font_stats_ext2_def sorted_sizes_ext2_def anchor_page_def anchor_line_def
        body_line_def get0_def py_round2_def nth_or0_def Let_def anchor_stats_def)

lemma anchor_clean: "clean_text ''Annual Report'' = ''Anual Report''"
  by (simp add: text_eval)

lemma anchor_words: "length (split_ws ''Anual Report'') = 2"
  by (simp add: text_eval)

lemma anchor_rules:
  "\<not> search_dollar toc_rx ''Anual Report''" "\<not> match_dollar revision_rx ''Anual Report''"
  "\<not> rmatch numbered_rx ''Anual Report''" "\<not> fullmatch page_rx ''Anual Report''"
  "\<not> fullmatch digits_rx ''Anual Report''" "\<not> isupper ''Anual Report''"
  by (simp_all add: ext2_rx_defs rx_eval isupper_def)

lemma anchor_patterns:
  "\<not> rmatch h4_rx ''Anual Report''" "\<not> rmatch h3_rx ''Anual Report''"
  "\<not> rmatch h2_rx ''Anual Report''" "\<not> rmatch h1_rx ''Anual Report''"
  by (simp_all add: ext2_rx_defs rx_eval)

lemma anchor_bold: "bold_name (fontname_lower (Some ''Helvetica-Bold''))"
  by (simp add: bold_name_def fontname_lower_def text_eval)

lemma anchor_classified: "classify_line ''Anual Report'' 14 True anchor_stats = Some (H 1)"
proof -
  have "is_likely_heading ''Anual Report'' 14 True anchor_stats (length (split_ws ''Anual Report''))"
    unfolding is_likely_heading_def anchor_words using anchor_rules
    by (simp add: endswith_char_def)
  then show ?thesis using anchor_patterns
    by (simp add: classify_line_def assign_level_def style_level_def anchor_stats_def)
qed

lemma anchor_first_char:
  "first_char (l_chars anchor_line) =
     Some \<lparr>ch_text = ''A'', ch_size = Some 14, ch_fontname = Some ''Helvetica-Bold''\<rparr>"
  by (simp add: first_char_def anchor_line_def text_eval)

lemma anchor_heading:
  "heading_of_line anchor_stats n anchor_line =
     Some \<lparr>e_level = H 1, e_text = ''Anual Report'', e_page = n\<rparr>"
proof -
  have "l_text anchor_line = ''Annual Report''" by (simp add: anchor_line_def)
  then show ?thesis
    using anchor_bold anchor_classified
    by (simp add: heading_of_line_def anchor_first_char anchor_clean get0_def round2_14)
qed

lemma anchor_outline_nonempty: "outline (extract_outline_ext2 (Readable anchor_doc)) \<noteq> []"
proof -
  have "raw_outline_ext2 anchor_stats [anchor_page] =
          List.map_filter (heading_of_line anchor_stats (Suc 0)) [anchor_line, body_line]"
    by (simp add: raw_outline_ext2_def enumerate1_def anchor_page_def)
  then have "raw_outline_ext2 anchor_stats [anchor_page] =
          \<lparr>e_level = H 1, e_text = ''Anual Report'', e_page = Suc 0\<rparr>
            # List.map_filter (heading_of_line anchor_stats (Suc 0)) [body_line]"
    by (simp add: anchor_heading)
  then have "dedup_outline (raw_outline_ext2 anchor_stats [anchor_page]) \<noteq> []"
    by (simp add: dedup_outline_def)
  then show ?thesis
    by (simp add: extract_outline_ext2_def anchor_doc_def anchor_font_stats Let_def)
qed

lemma anchor_missing:
  "\<forall>p \<in> set (pages anchor_doc). \<forall>l \<in> set (text_lines p).
     \<not> contains ''Anual Report'' (strip (l_text l))"
  by (simp add: anchor_doc_def anchor_page_def anchor_line_def body_line_def strip_def
        char_class_defs)

text \<open>
  C4. The claim fails on the code. The heading \<^verbatim>\<open>Annual Report\<close> enters the outline
  of ext2.py as \<^verbatim>\<open>Anual Report\<close>, a title that no line of the document contains.
  With the two imports in place the section body would be empty, as the claim says. In
  the module as it is, section-text extraction raises \<^verbatim>\<open>NameError\<close> and the run
  aborts before any ranking.
\<close>

theorem missing_anchor_aborts_run:
  "get_text_content_for_section repaired_globals (Readable anchor_doc) 1 ''Anual Report'' None None
     = Inr []
   \<and> get_text_content_for_section persona_analyst_globals (Readable anchor_doc) 1 ''Anual Report''
       None None = Inl (NameError ''re'')
   \<and> analyze_document_collection persona_analyst_globals extract_outline_ext2 nlp similarities now
       [anchor_input] persona_definition job = Inl (NameError ''re'')"
proof (intro conjI)
  show "get_text_content_for_section repaired_globals (Readable anchor_doc) 1 ''Anual Report''
          None None = Inr []"
    by (rule missing_anchor_empty_when_re_bound) (simp_all add: repaired_globals_def anchor_missing)
  show "get_text_content_for_section persona_analyst_globals (Readable anchor_doc) 1
          ''Anual Report'' None None = Inl (NameError ''re'')"
    by (rule section_text_always_raises)
  have "gather_sections persona_analyst_globals extract_outline_ext2 [anchor_input]
          = Inl (NameError ''re'')"
    by (rule gather_raises) (simp add: anchor_input_def anchor_outline_nonempty)
  then show "analyze_document_collection persona_analyst_globals extract_outline_ext2 nlp
               similarities now [anchor_input] persona_definition job = Inl (NameError ''re'')"
    by (simp add: analyze_document_collection_def Let_def)
qed

end
